theory Spec2Isabelle
  imports Main "HOL-Library.AList" "HOL-Library.Word"
begin

section \<open>JavaScript values\<close>

text \<open>
  The client handles values whose shape is only known at run time: parsed JSON bodies,
  query values, and the tokens that login and refresh copy out of a response without
  checking them. They are modelled by one datatype. A number is carried as its canonical
  rendering, the text that \<^verbatim>\<open>String(n)\<close> yields (\<^verbatim>\<open>1\<close>, \<^verbatim>\<open>1.5\<close>, \<^verbatim>\<open>1e+21\<close>,
  \<^verbatim>\<open>NaN\<close>; both zeros render as \<^verbatim>\<open>0\<close>): the source only ever tests a number for
  truthiness or turns it into text. An object is the list of its own enumerable
  properties, in enumeration order, with distinct keys.
\<close>

datatype jsval =
    JUndefined
  | JNull
  | JBool bool
  | JNum string
  | JStr string
  | JArr "jsval list"
  | JObj "(string \<times> jsval) list"

text \<open>Truthiness, as \<^verbatim>\<open>if (v)\<close>, \<^verbatim>\<open>!v\<close> and \<^verbatim>\<open>a || b\<close> test it.\<close>

fun truthy :: "jsval \<Rightarrow> bool" where
  "truthy JUndefined = False"
| "truthy JNull = False"
| "truthy (JBool b) = b"
| "truthy (JNum n) = (n \<noteq> ''0'' \<and> n \<noteq> ''NaN'')"
| "truthy (JStr s) = (s \<noteq> [])"
| "truthy (JArr xs) = True"
| "truthy (JObj kvs) = True"

text \<open>\<^verbatim>\<open>parts.join(sep)\<close> on an array of strings.\<close>

fun join :: "string \<Rightarrow> string list \<Rightarrow> string" where
  "join sep [] = []"
| "join sep [s] = s"
| "join sep (s # t # ts) = s @ sep @ join sep (t # ts)"

text \<open>
  \<^verbatim>\<open>String(v)\<close>, which is also what a template literal \<^verbatim>\<open>`${v}`\<close> applies; \<open>None\<close>
  where the conversion throws a TypeError. An object is converted by its \<^verbatim>\<open>toString\<close>
  method: the inherited one gives \<^verbatim>\<open>[object Object]\<close>, but an own property of that
  name hides it, and in parsed data such a property is never a function, so the
  conversion throws (\<^verbatim>\<open>valueOf\<close>, inherited or own, gives no primitive either). An array
  joins the conversions of its elements with commas, \<^verbatim>\<open>null\<close> and \<^verbatim>\<open>undefined\<close>
  elements as empty text, and throws when an element does.
\<close>

fun String_js :: "jsval \<Rightarrow> string option" where
  "String_js JUndefined = Some ''undefined''"
| "String_js JNull = Some ''null''"
| "String_js (JBool b) = Some (if b then ''true'' else ''false'')"
| "String_js (JNum n) = Some n"
| "String_js (JStr s) = Some s"
| "String_js (JArr xs) =
     map_option (join '','')
       (those (map (\<lambda>x. if x = JUndefined \<or> x = JNull then Some [] else String_js x) xs))"
| "String_js (JObj kvs) =
     (case map_of kvs ''toString'' of None \<Rightarrow> Some ''[object Object]'' | Some f \<Rightarrow> None)"

text \<open>
  The values of a query map: its declared type is
  \<^verbatim>\<open>Record<string, string | number | boolean | undefined>\<close>, and the loop also tests for
  \<^verbatim>\<open>null\<close>. On these \<^verbatim>\<open>String(v)\<close> never throws. A number is its canonical rendering,
  as above.
\<close>

datatype qvalue = QUndefined | QNull | QBool bool | QNum string | QStr string

fun String_q :: "qvalue \<Rightarrow> string" where
  "String_q QUndefined = ''undefined''"
| "String_q QNull = ''null''"
| "String_q (QBool b) = (if b then ''true'' else ''false'')"
| "String_q (QNum n) = n"
| "String_q (QStr s) = s"

fun js_of_q :: "qvalue \<Rightarrow> jsval" where
  "js_of_q QUndefined = JUndefined"
| "js_of_q QNull = JNull"
| "js_of_q (QBool b) = JBool b"
| "js_of_q (QNum n) = JNum n"
| "js_of_q (QStr s) = JStr s"

text \<open>
  Reading a property \<^verbatim>\<open>v.k\<close>, for the names the client reads (\<^verbatim>\<open>message\<close>,
  \<^verbatim>\<open>error\<close>, \<^verbatim>\<open>token\<close>, \<^verbatim>\<open>refresh_token\<close>): none of them is a built-in property of a
  string, number, boolean or array, so there the read gives \<^verbatim>\<open>undefined\<close>. On
  \<^verbatim>\<open>null\<close> and \<^verbatim>\<open>undefined\<close> the read throws a TypeError: the value \<open>None\<close>.
\<close>

fun get_prop :: "jsval \<Rightarrow> string \<Rightarrow> jsval option" where
  "get_prop JUndefined k = None"
| "get_prop JNull k = None"
| "get_prop (JObj kvs) k = Some (case map_of kvs k of None \<Rightarrow> JUndefined | Some v \<Rightarrow> v)"
| "get_prop (JBool b) k = Some JUndefined"
| "get_prop (JNum n) k = Some JUndefined"
| "get_prop (JStr s) k = Some JUndefined"
| "get_prop (JArr xs) k = Some JUndefined"

text \<open>Truthiness of a \<^verbatim>\<open>string | null | undefined\<close>, and \<^verbatim>\<open>a || b\<close> on two of them.\<close>

definition str_truthy :: "string option \<Rightarrow> bool" where
  "str_truthy v = (case v of None \<Rightarrow> False | Some s \<Rightarrow> s \<noteq> [])"

definition str_or :: "string option \<Rightarrow> string option \<Rightarrow> string option" where
  "str_or a b = (if str_truthy a then a else b)"

text \<open>\<^verbatim>\<open>s.startsWith(p)\<close> and \<^verbatim>\<open>s.includes(p)\<close> on strings.\<close>

fun startsWith :: "string \<Rightarrow> string \<Rightarrow> bool" where
  "startsWith s [] = True"
| "startsWith [] (p # ps) = False"
| "startsWith (c # cs) (p # ps) = (c = p \<and> startsWith cs ps)"

fun str_includes :: "string \<Rightarrow> string \<Rightarrow> bool" where
  "str_includes [] p = (p = [])"
| "str_includes (c # cs) p = (startsWith (c # cs) p \<or> str_includes cs p)"

text \<open>The decimal rendering of an HTTP status, for \<^verbatim>\<open>`HTTP ${res.status}`\<close>.\<close>

definition digit :: "nat \<Rightarrow> char" where
  "digit d = ''0123456789'' ! d"

fun decimal :: "nat \<Rightarrow> string" where
  "decimal n = (if n < 10 then [digit n] else decimal (n div 10) @ [digit (n mod 10)])"

declare decimal.simps [simp del]

section \<open>The session store (config.ts)\<close>

record config =
  baseUrl :: string
  token :: jsval
  refreshToken :: jsval
  companyId :: "string option"
  email :: "string option"
  password :: "string option"

text \<open>
  \<^verbatim>\<open>Partial<Config>\<close>: the fields an update carries. \<open>None\<close> is a field the update
  does not have; \<^verbatim>\<open>Object.assign\<close> copies every field it has.
\<close>

record config_updates =
  set_baseUrl :: "string option"
  set_token :: "jsval option"
  set_refreshToken :: "jsval option"
  set_companyId :: "string option option"
  set_email :: "string option option"
  set_password :: "string option option"

definition no_updates :: config_updates where
  "no_updates = \<lparr>set_baseUrl = None, set_token = None, set_refreshToken = None,
     set_companyId = None, set_email = None, set_password = None\<rparr>"

text \<open>\<^verbatim>\<open>s.replace(/\/$/, '')\<close>: one slash at the very end of the string is removed.\<close>

definition strip_trailing_slash :: "string \<Rightarrow> string" where
  "strip_trailing_slash s = (if s \<noteq> [] \<and> last s = CHR ''/'' then butlast s else s)"

text \<open>\<^verbatim>\<open>process.env.X || null\<close> and \<^verbatim>\<open>process.env.X || d\<close>.\<close>

definition env_or_null :: "string option \<Rightarrow> string option" where
  "env_or_null v = (if str_truthy v then v else None)"

definition env_or :: "string option \<Rightarrow> string \<Rightarrow> string" where
  "env_or v d = (case v of None \<Rightarrow> d | Some s \<Rightarrow> if s = [] then d else s)"

definition token_of_env :: "string option \<Rightarrow> jsval" where
  "token_of_env v = (case env_or_null v of None \<Rightarrow> JNull | Some s \<Rightarrow> JStr s)"

definition initial_config :: "(string \<Rightarrow> string option) \<Rightarrow> config" where
  "initial_config env =
     \<lparr>baseUrl = strip_trailing_slash (env_or (env ''STORNO_BASE_URL'') ''https://api.storno.ro''),
      token = token_of_env (env ''STORNO_TOKEN''),
      refreshToken = token_of_env (env ''STORNO_REFRESH_TOKEN''),
      companyId = env_or_null (env ''STORNO_COMPANY_ID''),
      email = env_or_null (env ''STORNO_EMAIL''),
      password = env_or_null (env ''STORNO_PASSWORD'')\<rparr>"

text \<open>
  The module variable \<^verbatim>\<open>_config\<close> is the state: \<open>None\<close> before the first access.
  \<open>getConfig\<close> returns the session and the state after the call.
\<close>

definition getConfig :: "(string \<Rightarrow> string option) \<Rightarrow> config option \<Rightarrow> config \<times> config option" where
  "getConfig env st =
     (case st of
        None \<Rightarrow> (initial_config env, Some (initial_config env))
      | Some c \<Rightarrow> (c, Some c))"

definition assign :: "config \<Rightarrow> config_updates \<Rightarrow> config" where
  "assign c u =
     \<lparr>baseUrl = (case set_baseUrl u of None \<Rightarrow> baseUrl c | Some v \<Rightarrow> v),
      token = (case set_token u of None \<Rightarrow> token c | Some v \<Rightarrow> v),
      refreshToken = (case set_refreshToken u of None \<Rightarrow> refreshToken c | Some v \<Rightarrow> v),
      companyId = (case set_companyId u of None \<Rightarrow> companyId c | Some v \<Rightarrow> v),
      email = (case set_email u of None \<Rightarrow> email c | Some v \<Rightarrow> v),
      password = (case set_password u of None \<Rightarrow> password c | Some v \<Rightarrow> v)\<rparr>"

definition updateConfig :: "(string \<Rightarrow> string option) \<Rightarrow> config_updates \<Rightarrow> config option \<Rightarrow> config option" where
  "updateConfig env updates st = Some (assign (fst (getConfig env st)) updates)"

section \<open>Requests, responses and the platform\<close>

type_synonym bytes = "8 word list"

datatype HttpMethod = GET | POST | PUT | PATCH | DELETE

record RequestOptions =
  opt_method :: "HttpMethod option"
  body :: "(string \<times> jsval) list option"
  query :: "(string \<times> qvalue) list option"
  headers :: "(string \<times> string) list option"
  companyId_override :: "string option"
  noAuth :: bool
  binary :: bool
  filePath :: "string option"
  fileFieldName :: "string option"
  formFields :: "(string \<times> string) list option"

text \<open>A \<^verbatim>\<open>FormData\<close> is the list of its entries; a body is a form or a JSON text.\<close>

datatype form_value = FileBlob bytes string | Field string

datatype BodyInit = FormData "(string \<times> form_value) list" | JsonText string

record request =
  req_url :: string
  req_method :: HttpMethod
  req_headers :: "(string \<times> string) list"
  req_body :: "BodyInit option"

text \<open>
  A response, as far as the client observes it: the status, the \<^verbatim>\<open>content-type\<close>
  header, and what each way of reading the body gives (\<open>None\<close>: the promise rejects).
\<close>

record response =
  status :: nat
  content_type :: "string option"
  text_body :: "string option"
  json_body :: "jsval option"
  arrayBuffer_body :: "bytes option"

definition ok :: "response \<Rightarrow> bool" where
  "ok res = (200 \<le> status res \<and> status res \<le> 299)"

datatype fetch_result = NetworkError string | Response response

record url =
  location :: string
  searchParams :: "(string \<times> string) list"

text \<open>
  What the client is given by its platform and the source does not define: the process
  environment, the URL library (\<open>new_URL path base\<close> is \<open>None\<close> where the constructor
  throws), the file system (\<open>readFileSync\<close> is \<open>None\<close> where it throws), \<^verbatim>\<open>basename\<close>,
  \<^verbatim>\<open>JSON.stringify\<close>, the base64 encoder, and the network: \<open>fetch\<close> answers a request
  given the requests the process has sent before it.
\<close>

record platform =
  environ :: "string \<Rightarrow> string option"
  new_URL :: "string \<Rightarrow> string \<Rightarrow> url option"
  url_toString :: "url \<Rightarrow> string"
  readFileSync :: "string \<Rightarrow> bytes option"
  basename :: "string \<Rightarrow> string"
  JSON_stringify :: "jsval \<Rightarrow> string"
  base64 :: "bytes \<Rightarrow> string"
  fetch :: "request list \<Rightarrow> request \<Rightarrow> fetch_result"

text \<open>What a call gives its caller: a value of the tagged union, or an exception.\<close>

datatype api_result = ApiResponse nat jsval | ApiError nat jsval "jsval option"

datatype exn = TypeError | IOError

datatype 'a outcome = Returned 'a | Thrown exn

text \<open>The state of the process: the session store and the requests sent so far.\<close>

type_synonym process = "config option \<times> request list"

section \<open>The request executor\<close>

subsection \<open>The URL and its query string\<close>

text \<open>
  \<^verbatim>\<open>searchParams.set(k, v)\<close>: the first pair named \<open>k\<close> takes the value and the other
  pairs named \<open>k\<close> go; with no such pair, a new one is appended.
\<close>

fun searchParams_set :: "string \<Rightarrow> string \<Rightarrow> (string \<times> string) list \<Rightarrow> (string \<times> string) list" where
  "searchParams_set k v [] = [(k, v)]"
| "searchParams_set k v (p # ps) =
     (if fst p = k then (k, v) # filter (\<lambda>q. fst q \<noteq> k) ps
      else p # searchParams_set k v ps)"

text \<open>The test of the loop over \<^verbatim>\<open>Object.entries(query)\<close>.\<close>

definition sendable :: "qvalue \<Rightarrow> bool" where
  "sendable v = (v \<noteq> QUndefined \<and> v \<noteq> QNull \<and> v \<noteq> QStr [])"

fun add_query :: "(string \<times> qvalue) list \<Rightarrow> (string \<times> string) list \<Rightarrow> (string \<times> string) list" where
  "add_query [] ps = ps"
| "add_query (e # es) ps =
     add_query es (if sendable (snd e) then searchParams_set (fst e) (String_q (snd e)) ps else ps)"

definition buildUrl :: "platform \<Rightarrow> config \<Rightarrow> string \<Rightarrow> RequestOptions \<Rightarrow> url outcome" where
  "buildUrl P cfg path options =
     (case new_URL P path (baseUrl cfg) of
        None \<Rightarrow> Thrown TypeError
      | Some u \<Rightarrow>
          Returned (case query options of
                      None \<Rightarrow> u
                    | Some q \<Rightarrow> u\<lparr>searchParams := add_query q (searchParams u)\<rparr>))"

subsection \<open>Headers\<close>

text \<open>
  The header object starts as a copy of the caller's. \<^verbatim>\<open>config.token.startsWith\<close> is
  a method of strings only: on a truthy token that is not a string the call throws.
\<close>

definition authHeader :: "config \<Rightarrow> RequestOptions \<Rightarrow> (string \<times> string) list \<Rightarrow> (string \<times> string) list outcome" where
  "authHeader cfg options reqHeaders =
     (if \<not> noAuth options \<and> truthy (token cfg) then
        (case token cfg of
           JStr t \<Rightarrow>
             Returned (AList.update ''Authorization''
                         (if startsWith t ''af_'' then t else ''Bearer '' @ t) reqHeaders)
         | _ \<Rightarrow> Thrown TypeError)
      else Returned reqHeaders)"

definition companyHeader :: "config \<Rightarrow> RequestOptions \<Rightarrow> (string \<times> string) list \<Rightarrow> (string \<times> string) list" where
  "companyHeader cfg options reqHeaders =
     (case str_or (companyId_override options) (companyId cfg) of
        None \<Rightarrow> reqHeaders
      | Some effectiveCompanyId \<Rightarrow>
          if effectiveCompanyId \<noteq> [] then AList.update ''X-Company'' effectiveCompanyId reqHeaders
          else reqHeaders)"

subsection \<open>The body\<close>

definition formEntries :: "RequestOptions \<Rightarrow> bytes \<Rightarrow> string \<Rightarrow> (string \<times> form_value) list" where
  "formEntries options fileBuffer fileName =
     (case fileFieldName options of None \<Rightarrow> ''file'' | Some f \<Rightarrow> f, FileBlob fileBuffer fileName)
     # (case formFields options of
          None \<Rightarrow> []
        | Some fs \<Rightarrow> map (\<lambda>kv. (fst kv, Field (snd kv))) fs)"

text \<open>The body and the headers after it is built (lines 107 to 125).\<close>

definition buildBody :: "platform \<Rightarrow> RequestOptions \<Rightarrow> (string \<times> string) list \<Rightarrow> ((string \<times> string) list \<times> BodyInit option) outcome" where
  "buildBody P options reqHeaders =
     (if str_truthy (filePath options) then
        (case filePath options of
           None \<Rightarrow> Returned (reqHeaders, None)
         | Some fp \<Rightarrow>
             (case readFileSync P fp of
                None \<Rightarrow> Thrown IOError
              | Some fileBuffer \<Rightarrow>
                  Returned (reqHeaders, Some (FormData (formEntries options fileBuffer (basename P fp))))))
      else
        (case body options of
           Some b \<Rightarrow>
             Returned (AList.update ''Content-Type'' ''application/json'' reqHeaders,
                       Some (JsonText (JSON_stringify P (JObj b))))
         | None \<Rightarrow> Returned (reqHeaders, None)))"

text \<open>
  Lines 77 to 132: the request of the call, or the exception that building it throws.
  The steps run in the order of the source, so the first one that throws decides.
\<close>

definition buildRequest :: "platform \<Rightarrow> config \<Rightarrow> string \<Rightarrow> RequestOptions \<Rightarrow> request outcome" where
  "buildRequest P cfg path options =
     (case buildUrl P cfg path options of
        Thrown e \<Rightarrow> Thrown e
      | Returned u \<Rightarrow>
          (case authHeader cfg options (case headers options of None \<Rightarrow> [] | Some h \<Rightarrow> h) of
             Thrown e \<Rightarrow> Thrown e
           | Returned h1 \<Rightarrow>
               (case buildBody P options (companyHeader cfg options h1) of
                  Thrown e \<Rightarrow> Thrown e
                | Returned hb \<Rightarrow>
                    Returned \<lparr>req_url = url_toString P u,
                              req_method = (case opt_method options of None \<Rightarrow> GET | Some m \<Rightarrow> m),
                              req_headers = fst hb,
                              req_body = snd hb\<rparr>)))"

subsection \<open>Refresh\<close>

definition refreshRequest :: "platform \<Rightarrow> config \<Rightarrow> request" where
  "refreshRequest P cfg =
     \<lparr>req_url = baseUrl cfg @ ''/api/auth/token/refresh'',
      req_method = POST,
      req_headers = [(''Content-Type'', ''application/json'')],
      req_body = Some (JsonText (JSON_stringify P (JObj [(''refresh_token'', refreshToken cfg)])))\<rparr>"

text \<open>
  \<open>refreshAccessToken\<close> returns whether it refreshed, and the process after it. Every
  exception inside its \<^verbatim>\<open>try\<close> (the transport, the parse of the body, the property
  read on a \<^verbatim>\<open>null\<close> body) gives \<^verbatim>\<open>false\<close>.
\<close>

definition refreshAccessToken :: "platform \<Rightarrow> process \<Rightarrow> bool \<times> process" where
  "refreshAccessToken P s =
     (let cfg = fst (getConfig (environ P) (fst s));
          st = snd (getConfig (environ P) (fst s));
          sent = snd s
      in if \<not> truthy (refreshToken cfg) then (False, (st, sent))
         else
           (case fetch P sent (refreshRequest P cfg) of
              NetworkError m \<Rightarrow> (False, (st, sent @ [refreshRequest P cfg]))
            | Response res \<Rightarrow>
                if \<not> ok res then (False, (st, sent @ [refreshRequest P cfg]))
                else
                  (case json_body res of
                     None \<Rightarrow> (False, (st, sent @ [refreshRequest P cfg]))
                   | Some data \<Rightarrow>
                       (case get_prop data ''token'' of
                          None \<Rightarrow> (False, (st, sent @ [refreshRequest P cfg]))
                        | Some t \<Rightarrow>
                            (case get_prop data ''refresh_token'' of
                               None \<Rightarrow> (False, (st, sent @ [refreshRequest P cfg]))
                             | Some r \<Rightarrow>
                                 (True,
                                  (updateConfig (environ P)
                                     (no_updates\<lparr>set_token := Some t, set_refreshToken := Some r\<rparr>) st,
                                   sent @ [refreshRequest P cfg])))))))"

subsection \<open>Sending, with one refresh and one retry\<close>

text \<open>
  Line 149: the header of the retry is set from the token now in the session, by a
  template literal. The line stands before the \<^verbatim>\<open>try\<close> of line 150: where the
  conversion of the token throws, the call throws.
\<close>

definition retryRequest :: "config \<Rightarrow> request \<Rightarrow> request outcome" where
  "retryRequest cfg req =
     (case String_js (token cfg) of
        None \<Rightarrow> Thrown TypeError
      | Some t \<Rightarrow>
          Returned (req\<lparr>req_headers :=
                          AList.update ''Authorization'' (''Bearer '' @ t) (req_headers req)\<rparr>))"

text \<open>
  Lines 134 to 163: the response \<^verbatim>\<open>res\<close> that reaches the parser (\<open>Inr\<close>), or the
  failure the call returns at once (\<open>Inl\<close>), or the exception of line 149, and the
  process afterwards. \<open>cfg\<close> is the session object read at the start of the call.
\<close>

definition exchange :: "platform \<Rightarrow> config \<Rightarrow> RequestOptions \<Rightarrow> request \<Rightarrow> process \<Rightarrow> (api_result + response) outcome \<times> process" where
  "exchange P cfg options req s =
     (case fetch P (snd s) req of
        NetworkError m \<Rightarrow>
          (Returned (Inl (ApiError 0 (JStr (''Network error: '' @ m)) None)), (fst s, snd s @ [req]))
      | Response res \<Rightarrow>
          if status res = 401 \<and> \<not> noAuth options \<and> truthy (refreshToken cfg) then
            (case refreshAccessToken P (fst s, snd s @ [req]) of
               (refreshed, s') \<Rightarrow>
                 if refreshed then
                   (let cfg' = fst (getConfig (environ P) (fst s'));
                        st' = snd (getConfig (environ P) (fst s'))
                    in case retryRequest cfg' req of
                         Thrown e \<Rightarrow> (Thrown e, (st', snd s'))
                       | Returned retry \<Rightarrow>
                           (case fetch P (snd s') retry of
                              NetworkError m \<Rightarrow>
                                (Returned (Inl (ApiError 0
                                   (JStr (''Network error after token refresh: '' @ m)) None)),
                                 (st', snd s' @ [retry]))
                            | Response res' \<Rightarrow> (Returned (Inr res'), (st', snd s' @ [retry]))))
                 else (Returned (Inr res), s'))
          else (Returned (Inr res), (fst s, snd s @ [req])))"

subsection \<open>Parsing the response\<close>

definition http_status_text :: "response \<Rightarrow> string" where
  "http_status_text res = ''HTTP '' @ decimal (status res)"

text \<open>Lines 165 to 211.\<close>

definition parseResponse :: "platform \<Rightarrow> bool \<Rightarrow> response \<Rightarrow> api_result outcome" where
  "parseResponse P bin res =
     (if bin then
        (if \<not> ok res then
           Returned (ApiError (status res)
                       (JStr (case text_body res of None \<Rightarrow> ''Unknown error'' | Some t \<Rightarrow> t)) None)
         else
           (case arrayBuffer_body res of
              None \<Rightarrow> Thrown IOError
            | Some buffer \<Rightarrow>
                Returned (ApiResponse (status res)
                            (JObj [(''base64'', JStr (base64 P buffer)),
                                   (''contentType'',
                                    case content_type res of None \<Rightarrow> JNull | Some c \<Rightarrow> JStr c)]))))
      else if status res = 204 then Returned (ApiResponse 204 JNull)
      else if \<not> str_includes (case content_type res of None \<Rightarrow> [] | Some c \<Rightarrow> c) ''application/json'' then
        (let text = (case text_body res of None \<Rightarrow> [] | Some t \<Rightarrow> t)
         in if \<not> ok res then
              Returned (ApiError (status res)
                          (JStr (if text \<noteq> [] then text else http_status_text res)) None)
            else Returned (ApiResponse (status res) (JStr text)))
      else
        (case json_body res of
           None \<Rightarrow> Returned (ApiError (status res) (JStr ''Failed to parse JSON response'') None)
         | Some data \<Rightarrow>
             if \<not> ok res then
               (case get_prop data ''message'' of
                  None \<Rightarrow> Thrown TypeError
                | Some m \<Rightarrow>
                    if truthy m then Returned (ApiError (status res) m (Some data))
                    else
                      (case get_prop data ''error'' of
                         None \<Rightarrow> Thrown TypeError
                       | Some e \<Rightarrow>
                           Returned (ApiError (status res)
                                       (if truthy e then e else JStr (http_status_text res))
                                       (Some data))))
             else Returned (ApiResponse (status res) data)))"

subsection \<open>The executor\<close>

definition apiRequest :: "platform \<Rightarrow> string \<Rightarrow> RequestOptions \<Rightarrow> process \<Rightarrow> api_result outcome \<times> process" where
  "apiRequest P path options s =
     (let cfg = fst (getConfig (environ P) (fst s));
          st = snd (getConfig (environ P) (fst s))
      in case buildRequest P cfg path options of
           Thrown e \<Rightarrow> (Thrown e, (st, snd s))
         | Returned req \<Rightarrow>
             (case exchange P cfg options req (st, snd s) of
                (Thrown e, s') \<Rightarrow> (Thrown e, s')
              | (Returned (Inl failure), s') \<Rightarrow> (Returned failure, s')
              | (Returned (Inr res), s') \<Rightarrow> (parseResponse P (binary options) res, s')))"

section \<open>A platform to run the client on\<close>

text \<open>
  The examples below run the client on a small platform: URLs are resolved by
  concatenation and carry no query string of their own, a URL prints its pairs after a
  question mark, \<open>demo_stringify\<close> prints an object of scalars without quoting, and the base64
  encoder is the standard one. The environment, the file system and the network are
  given by each example.
\<close>

definition demo_URL :: "string \<Rightarrow> string \<Rightarrow> url option" where
  "demo_URL path base = (if base = [] then None else Some \<lparr>location = base @ path, searchParams = []\<rparr>)"

definition demo_toString :: "url \<Rightarrow> string" where
  "demo_toString u =
     (if searchParams u = [] then location u
      else location u @ ''?'' @ join ''&'' (map (\<lambda>p. fst p @ ''='' @ snd p) (searchParams u)))"

definition demo_basename :: "string \<Rightarrow> string" where
  "demo_basename p = rev (takeWhile (\<lambda>c. c \<noteq> CHR ''/'') (rev p))"

fun demo_text :: "jsval \<Rightarrow> string" where
  "demo_text (JStr s) = s"
| "demo_text (JNum n) = n"
| "demo_text (JBool b) = (if b then ''true'' else ''false'')"
| "demo_text JNull = ''null''"
| "demo_text v = ''...''"

definition demo_stringify :: "jsval \<Rightarrow> string" where
  "demo_stringify v =
     (case v of
        JObj kvs \<Rightarrow> ''{'' @ join '','' (map (\<lambda>kv. fst kv @ '':'' @ demo_text (snd kv)) kvs) @ ''}''
      | _ \<Rightarrow> demo_text v)"

definition b64 :: "nat \<Rightarrow> char" where
  "b64 n = ''ABCDEFGHIJKLMNOPQRSTUVWXYZabcdefghijklmnopqrstuvwxyz0123456789+/'' ! n"

fun base64_encode :: "bytes \<Rightarrow> string" where
  "base64_encode [] = []"
| "base64_encode [a] =
     [b64 (unat a div 4), b64 (unat a mod 4 * 16), CHR ''='', CHR ''='']"
| "base64_encode [a, b] =
     [b64 (unat a div 4), b64 (unat a mod 4 * 16 + unat b div 16), b64 (unat b mod 16 * 4), CHR ''='']"
| "base64_encode (a # b # c # rest) =
     [b64 (unat a div 4), b64 (unat a mod 4 * 16 + unat b div 16),
      b64 (unat b mod 16 * 4 + unat c div 64), b64 (unat c mod 64)] @ base64_encode rest"

definition demo_platform :: "(string \<Rightarrow> string option) \<Rightarrow> (string \<Rightarrow> bytes option) \<Rightarrow> (request list \<Rightarrow> request \<Rightarrow> fetch_result) \<Rightarrow> platform" where
  "demo_platform env files net =
     \<lparr>environ = env, new_URL = demo_URL, url_toString = demo_toString, readFileSync = files,
      basename = demo_basename, JSON_stringify = demo_stringify, base64 = base64_encode,
      fetch = net\<rparr>"

definition demo_env :: "string \<Rightarrow> string option" where
  "demo_env k =
     (if k = ''STORNO_BASE_URL'' then Some ''https://x.test/''
      else if k = ''STORNO_TOKEN'' then Some ''tok''
      else if k = ''STORNO_REFRESH_TOKEN'' then Some ''r1''
      else None)"

definition no_files :: "string \<Rightarrow> bytes option" where
  "no_files p = None"

definition no_options :: RequestOptions where
  "no_options =
     \<lparr>opt_method = None, body = None, query = None, headers = None, companyId_override = None,
      noAuth = False, binary = False, filePath = None, fileFieldName = None, formFields = None\<rparr>"

definition json_response :: "nat \<Rightarrow> jsval option \<Rightarrow> response" where
  "json_response code parsed =
     \<lparr>status = code, content_type = Some ''application/json; charset=utf-8'',
      text_body = None, json_body = parsed, arrayBuffer_body = None\<rparr>"

text \<open>
  A server that answers 401, then accepts the refresh with a new pair of tokens, then
  answers 401 again.
\<close>

definition expiring_net :: "request list \<Rightarrow> request \<Rightarrow> fetch_result" where
  "expiring_net sent req =
     (if length sent = 0 then
        Response (json_response 401 (Some (JObj [(''message'', JStr ''Expired'')])))
      else if length sent = 1 then
        Response (json_response 200
          (Some (JObj [(''token'', JStr ''af_new''), (''refresh_token'', JStr ''r2'')])))
      else Response (json_response 401 (Some (JObj [(''message'', JStr ''Still expired'')]))))"

text \<open>
  A server whose 401 carries the JSON body \<^verbatim>\<open>null\<close> and that cannot be reached for
  the refresh.
\<close>

definition null_401_net :: "request list \<Rightarrow> request \<Rightarrow> fetch_result" where
  "null_401_net sent req =
     (if length sent = 0 then Response (json_response 401 (Some JNull))
      else NetworkError ''connect ECONNREFUSED'')"

text \<open>A server that always answers 204 with an empty body and no content type.\<close>

definition no_content :: response where
  "no_content =
     \<lparr>status = 204, content_type = None, text_body = Some [], json_body = None,
      arrayBuffer_body = Some []\<rparr>"

definition no_content_net :: "request list \<Rightarrow> request \<Rightarrow> fetch_result" where
  "no_content_net sent req = Response no_content"

text \<open>A server that answers 200, declares JSON and sends a body that does not parse.\<close>

definition broken_json_net :: "request list \<Rightarrow> request \<Rightarrow> fetch_result" where
  "broken_json_net sent req = Response (json_response 200 None)"

text \<open>A file system with one readable file, and a session configured with an API key.\<close>

definition one_file :: "string \<Rightarrow> bytes option" where
  "one_file p = (if p = ''/tmp/statement.csv'' then Some [0x61, 0x2C, 0x62] else None)"

definition key_env :: "string \<Rightarrow> string option" where
  "key_env k =
     (if k = ''STORNO_TOKEN'' then Some ''af_xyz''
      else if k = ''STORNO_COMPANY_ID'' then Some ''c-1''
      else None)"

text \<open>
  A URL library that also reads the query string a path carries: the text after the
  first question mark, split at \<^verbatim>\<open>&\<close> into pairs \<^verbatim>\<open>key=value\<close>.
\<close>

fun split_on :: "char \<Rightarrow> string \<Rightarrow> string list" where
  "split_on c [] = [[]]"
| "split_on c (x # xs) =
     (if x = c then [] # split_on c xs
      else (case split_on c xs of [] \<Rightarrow> [[x]] | p # ps \<Rightarrow> (x # p) # ps))"

definition parse_pair :: "string \<Rightarrow> string \<times> string" where
  "parse_pair s = (takeWhile (\<lambda>c. c \<noteq> CHR ''='') s, drop 1 (dropWhile (\<lambda>c. c \<noteq> CHR ''='') s))"

definition query_URL :: "string \<Rightarrow> string \<Rightarrow> url option" where
  "query_URL path base =
     (if base = [] then None
      else Some \<lparr>location = base @ takeWhile (\<lambda>c. c \<noteq> CHR ''?'') path,
                 searchParams =
                   map parse_pair
                     (filter (\<lambda>p. p \<noteq> [])
                        (split_on CHR ''&'' (drop 1 (dropWhile (\<lambda>c. c \<noteq> CHR ''?'') path))))\<rparr>)"


text \<open>
  A server that answers 401 and then accepts the refresh, with an object where the
  token should be.
\<close>

definition object_token_net :: "request list \<Rightarrow> request \<Rightarrow> fetch_result" where
  "object_token_net sent req =
     (if length sent = 0 then
        Response (json_response 401 (Some (JObj [(''message'', JStr ''Expired'')])))
      else
        Response (json_response 200
          (Some (JObj [(''token'', JObj [(''toString'', JNum ''1'')]), (''refresh_token'', JStr ''r2'')]))))"


text \<open>
  A server that answers 200 with a body that does not parse as JSON, under a given
  content type.
\<close>

definition mistyped_json_net :: "string \<Rightarrow> request list \<Rightarrow> request \<Rightarrow> fetch_result" where
  "mistyped_json_net ct sent req =
     Response \<lparr>status = 200, content_type = Some ct, text_body = Some ''{oops'',
               json_body = None, arrayBuffer_body = None\<rparr>"

section \<open>Evaluation rules\<close>

lemmas client_defs =
  apiRequest_def exchange_def refreshAccessToken_def retryRequest_def refreshRequest_def
  parseResponse_def buildRequest_def buildUrl_def authHeader_def companyHeader_def buildBody_def
  formEntries_def sendable_def http_status_text_def ok_def
  getConfig_def updateConfig_def assign_def no_updates_def initial_config_def
  env_or_def env_or_null_def token_of_env_def str_truthy_def str_or_def strip_trailing_slash_def

lemmas demo_defs =
  demo_platform_def demo_env_def no_files_def no_options_def json_response_def
  demo_URL_def demo_toString_def demo_basename_def demo_stringify_def

section \<open>The session store\<close>

lemma strip_trailing_slash_snoc: "strip_trailing_slash (s @ ''/'') = s"
  by (simp add: strip_trailing_slash_def)

lemma getConfig_again: "getConfig env (snd (getConfig env st)) = getConfig env st"
  by (simp add: getConfig_def split: option.splits)

lemma getConfig_fst_again [simp]:
  "fst (getConfig env (snd (getConfig env st))) = fst (getConfig env st)"
  by (simp add: getConfig_again)

lemma getConfig_snd_again [simp]:
  "snd (getConfig env (snd (getConfig env st))) = snd (getConfig env st)"
  by (simp add: getConfig_again)

lemma getConfig_snd: "snd (getConfig env st) = Some (fst (getConfig env st))"
  by (simp add: getConfig_def split: option.splits)

text \<open>
  C9. The claim is that the session's \<open>baseUrl\<close> is set once, at the first access of
  the store, and that no later update changes it. \<open>updateConfig\<close> takes any subset of
  the fields of the session, \<open>baseUrl\<close> among them, and copies what it is given: an
  update that carries a \<open>baseUrl\<close> replaces the stored one, unnormalised. Here the
  store is first read and then updated with another base URL.
\<close>

theorem baseUrl_update_counterexample:
  "baseUrl (fst (getConfig demo_env (snd (getConfig demo_env None)))) = ''https://x.test''
   \<and> baseUrl (fst (getConfig demo_env
         (updateConfig demo_env (no_updates\<lparr>set_baseUrl := Some ''http://other.test/''\<rparr>)
            (snd (getConfig demo_env None))))) = ''http://other.test/''"
  by (simp add: client_defs demo_defs)

text \<open>
  C9, as amended. At the first access the \<open>baseUrl\<close> is the configured base URL (the
  production host when none is configured) with one trailing slash removed; reading the
  store again never changes it; and an update that carries no \<open>baseUrl\<close> field leaves
  it as it was. The updates of the repository (login, refresh, company selection)
  carry \<open>token\<close>, \<open>refreshToken\<close> or \<open>companyId\<close> only.
\<close>

theorem baseUrl_initialised_then_kept:
  "baseUrl (fst (getConfig env None))
     = strip_trailing_slash (env_or (env ''STORNO_BASE_URL'') ''https://api.storno.ro'')
   \<and> baseUrl (fst (getConfig env (snd (getConfig env st)))) = baseUrl (fst (getConfig env st))
   \<and> (set_baseUrl u = None \<longrightarrow>
        baseUrl (fst (getConfig env (updateConfig env u st))) = baseUrl (fst (getConfig env st)))"
  by (simp add: getConfig_def updateConfig_def assign_def initial_config_def split: option.splits)

theorem baseUrl_initialised_then_kept_witness:
  "set_baseUrl (no_updates\<lparr>set_token := Some (JStr ''t'')\<rparr>) = None
   \<and> baseUrl (fst (getConfig demo_env
        (updateConfig demo_env (no_updates\<lparr>set_token := Some (JStr ''t'')\<rparr>) None))) = ''https://x.test''"
  using baseUrl_initialised_then_kept
    [where env = demo_env and st = None and u = "no_updates\<lparr>set_token := Some (JStr ''t'')\<rparr>"]
  by (simp add: client_defs demo_defs)

section \<open>Refresh and retry\<close>

lemma refreshAccessToken_sent:
  assumes "truthy (refreshToken (fst (getConfig (environ P) st)))"
  shows "snd (snd (refreshAccessToken P (st, sent)))
           = sent @ [refreshRequest P (fst (getConfig (environ P) st))]"
  using assms
  by (simp add: refreshAccessToken_def Let_def split: fetch_result.splits option.splits)

lemma refreshAccessToken_failed:
  assumes "\<not> fst (refreshAccessToken P (st, sent))"
  shows "fst (snd (refreshAccessToken P (st, sent))) = snd (getConfig (environ P) st)"
  using assms
  by (simp add: refreshAccessToken_def Let_def split: fetch_result.splits option.splits if_splits)

lemma refreshAccessToken_succeeded:
  assumes "fst (refreshAccessToken P (st, sent))"
  shows "\<exists>res data t r.
           fetch P sent (refreshRequest P (fst (getConfig (environ P) st))) = Response res
         \<and> ok res \<and> json_body res = Some data
         \<and> get_prop data ''token'' = Some t \<and> get_prop data ''refresh_token'' = Some r
         \<and> fst (snd (refreshAccessToken P (st, sent)))
             = Some ((fst (getConfig (environ P) st))\<lparr>token := t, refreshToken := r\<rparr>)"
proof (cases "fetch P sent (refreshRequest P (fst (getConfig (environ P) st)))")
  case (NetworkError m)
  with assms show ?thesis
    by (simp add: refreshAccessToken_def Let_def split: if_splits)
next
  case (Response res)
  with assms have k: "ok res" and present: "truthy (refreshToken (fst (getConfig (environ P) st)))"
    by (auto simp add: refreshAccessToken_def Let_def split: if_splits)
  from assms Response k present obtain data where d: "json_body res = Some data"
    by (cases "json_body res") (auto simp add: refreshAccessToken_def Let_def)
  from assms Response k present d obtain t where t: "get_prop data ''token'' = Some t"
    by (cases "get_prop data ''token''") (auto simp add: refreshAccessToken_def Let_def)
  from assms Response k present d t obtain r where r: "get_prop data ''refresh_token'' = Some r"
    by (cases "get_prop data ''refresh_token''") (auto simp add: refreshAccessToken_def Let_def)
  have "fst (snd (refreshAccessToken P (st, sent)))
          = Some ((fst (getConfig (environ P) st))\<lparr>token := t, refreshToken := r\<rparr>)"
    using Response k present d t r
    by (simp add: refreshAccessToken_def Let_def updateConfig_def assign_def no_updates_def)
  with Response k d t r show ?thesis by simp
qed

text \<open>
  The conversion of a query value is the conversion of the same value as a
  \<open>jsval\<close>, and a string always converts, to itself.
\<close>

lemma String_js_scalar: "String_js (js_of_q v) = Some (String_q v)"
  by (cases v) simp_all

lemma String_js_string: "String_js (JStr t) = Some t"
  by simp

lemma apiRequest_refreshed:
  assumes built: "buildRequest P (fst (getConfig (environ P) (fst s))) path options = Returned req"
    and first: "fetch P (snd s) req = Response r1"
    and unauth: "status r1 = 401"
    and auth: "\<not> noAuth options"
    and present: "truthy (refreshToken (fst (getConfig (environ P) (fst s))))"
    and refreshed: "refreshAccessToken P (snd (getConfig (environ P) (fst s)), snd s @ [req]) = (True, s')"
    and retry: "retryRequest (fst (getConfig (environ P) (fst s'))) req = Returned retry"
  shows "apiRequest P path options s =
           (case fetch P (snd s') retry of
              NetworkError m \<Rightarrow>
                Returned (ApiError 0 (JStr (''Network error after token refresh: '' @ m)) None)
            | Response r2 \<Rightarrow> parseResponse P (binary options) r2,
            (snd (getConfig (environ P) (fst s')), snd s' @ [retry]))"
  using assms
  by (simp add: apiRequest_def exchange_def Let_def split: fetch_result.splits)

lemma apiRequest_refreshed_throws:
  assumes built: "buildRequest P (fst (getConfig (environ P) (fst s))) path options = Returned req"
    and first: "fetch P (snd s) req = Response r1"
    and unauth: "status r1 = 401"
    and auth: "\<not> noAuth options"
    and present: "truthy (refreshToken (fst (getConfig (environ P) (fst s))))"
    and refreshed: "refreshAccessToken P (snd (getConfig (environ P) (fst s)), snd s @ [req]) = (True, s')"
    and retry: "retryRequest (fst (getConfig (environ P) (fst s'))) req = Thrown e"
  shows "apiRequest P path options s = (Thrown e, (snd (getConfig (environ P) (fst s')), snd s'))"
  using assms
  by (simp add: apiRequest_def exchange_def Let_def)

lemma apiRequest_not_refreshed:
  assumes built: "buildRequest P (fst (getConfig (environ P) (fst s))) path options = Returned req"
    and first: "fetch P (snd s) req = Response r1"
    and unauth: "status r1 = 401"
    and auth: "\<not> noAuth options"
    and present: "truthy (refreshToken (fst (getConfig (environ P) (fst s))))"
    and failed: "refreshAccessToken P (snd (getConfig (environ P) (fst s)), snd s @ [req]) = (False, s')"
  shows "apiRequest P path options s = (parseResponse P (binary options) r1, s')"
  using assms
  by (simp add: apiRequest_def exchange_def Let_def split: fetch_result.splits)

lemma retryRequest_keeps:
  assumes "retryRequest c req = Returned retry"
  shows "req_body retry = req_body req \<and> req_url retry = req_url req
       \<and> req_method retry = req_method req
       \<and> map_of (req_headers retry) ''Content-Type'' = map_of (req_headers req) ''Content-Type''"
  using assms by (auto simp add: retryRequest_def update_conv' split: option.splits)

text \<open>
  The executor never changes the base URL of the session: its only update, after a
  refresh, carries the two tokens.
\<close>

lemma refreshAccessToken_keeps_baseUrl:
  "baseUrl (fst (getConfig (environ P) (fst (snd (refreshAccessToken P (st, sent))))))
     = baseUrl (fst (getConfig (environ P) st))"
  by (simp add: refreshAccessToken_def Let_def updateConfig_def assign_def no_updates_def getConfig_def
      split: fetch_result.splits option.splits)

lemma exchange_keeps_baseUrl:
  "baseUrl (fst (getConfig (environ P) (fst (snd (exchange P cfg options req (st, sent))))))
     = baseUrl (fst (getConfig (environ P) st))"
proof (cases "fetch P sent req")
  case (NetworkError m)
  then show ?thesis by (simp add: exchange_def)
next
  case (Response res)
  show ?thesis
  proof (cases "status res = 401 \<and> \<not> noAuth options \<and> truthy (refreshToken cfg)")
    case False
    with Response show ?thesis by (auto simp add: exchange_def)
  next
    case True
    obtain refreshed s' where r: "refreshAccessToken P (st, sent @ [req]) = (refreshed, s')"
      by (cases "refreshAccessToken P (st, sent @ [req])") simp
    have "baseUrl (fst (getConfig (environ P) (fst s'))) = baseUrl (fst (getConfig (environ P) st))"
      using refreshAccessToken_keeps_baseUrl [of P st "sent @ [req]"] r by simp
    with Response True r show ?thesis
      by (cases refreshed)
        (auto simp add: exchange_def Let_def split: fetch_result.splits outcome.splits)
  qed
qed

lemma apiRequest_keeps_baseUrl:
  "baseUrl (fst (getConfig (environ P) (fst (snd (apiRequest P path options s)))))
     = baseUrl (fst (getConfig (environ P) (fst s)))"
proof (cases "buildRequest P (fst (getConfig (environ P) (fst s))) path options")
  case (Thrown e)
  then show ?thesis by (simp add: apiRequest_def Let_def)
next
  case (Returned req)
  let ?x = "exchange P (fst (getConfig (environ P) (fst s))) options req
              (snd (getConfig (environ P) (fst s)), snd s)"
  have "fst (snd (apiRequest P path options s)) = fst (snd ?x)"
    using Returned by (simp add: apiRequest_def Let_def split: prod.splits sum.splits outcome.splits)
  with exchange_keeps_baseUrl [where P = P and st = "snd (getConfig (environ P) (fst s))"] show ?thesis
    by simp
qed

text \<open>
  C1. The claim is that every call whose first response is a 401, with authentication
  not bypassed and a refresh token in the session, and whose refresh succeeds, sends
  the original request, one refresh request and one retry, and gives the result of
  the retry. The refresh stores whatever the \<^verbatim>\<open>token\<close> property of its response holds,
  and line 149 turns it into text before the retry, outside any \<^verbatim>\<open>try\<close>. Here the
  refresh succeeds with an object that carries a \<^verbatim>\<open>toString\<close> property: the conversion
  throws, the call throws with it, and no retry is sent.
\<close>

theorem object_token_no_retry:
  "refreshAccessToken (demo_platform demo_env no_files object_token_net)
       (snd (getConfig demo_env None),
        [\<lparr>req_url = ''https://x.test/api/v1/invoices'', req_method = GET,
           req_headers = [(''Authorization'', ''Bearer tok'')], req_body = None\<rparr>])
     = (True,
        (Some \<lparr>baseUrl = ''https://x.test'', token = JObj [(''toString'', JNum ''1'')],
                 refreshToken = JStr ''r2'', companyId = None, email = None, password = None\<rparr>,
         [\<lparr>req_url = ''https://x.test/api/v1/invoices'', req_method = GET,
            req_headers = [(''Authorization'', ''Bearer tok'')], req_body = None\<rparr>,
          \<lparr>req_url = ''https://x.test/api/auth/token/refresh'', req_method = POST,
            req_headers = [(''Content-Type'', ''application/json'')],
            req_body = Some (JsonText ''{refresh_token:r1}'')\<rparr>]))
   \<and> apiRequest (demo_platform demo_env no_files object_token_net) ''/api/v1/invoices'' no_options (None, [])
     = (Thrown TypeError,
        (Some \<lparr>baseUrl = ''https://x.test'', token = JObj [(''toString'', JNum ''1'')],
                 refreshToken = JStr ''r2'', companyId = None, email = None, password = None\<rparr>,
         [\<lparr>req_url = ''https://x.test/api/v1/invoices'', req_method = GET,
            req_headers = [(''Authorization'', ''Bearer tok'')], req_body = None\<rparr>,
          \<lparr>req_url = ''https://x.test/api/auth/token/refresh'', req_method = POST,
            req_headers = [(''Content-Type'', ''application/json'')],
            req_body = Some (JsonText ''{refresh_token:r1}'')\<rparr>]))"
  by (simp add: client_defs demo_defs object_token_net_def)

text \<open>
  C1, as amended. A call whose first response is a 401, with authentication not
  bypassed and a refresh token in the session, and whose refresh succeeds and stores a
  token that converts to text (as every string does), sends exactly three requests: the
  original, one to the refresh endpoint, and one retry of the original (same URL,
  method and body). What the call gives is decided by the answer to the retry alone,
  whatever its status: a second 401 is parsed like any other response and starts no
  second refresh.
\<close>

theorem refresh_then_one_retry:
  assumes built: "buildRequest P (fst (getConfig (environ P) (fst s))) path options = Returned req"
    and first: "fetch P (snd s) req = Response r1"
    and unauth: "status r1 = 401"
    and auth: "\<not> noAuth options"
    and present: "truthy (refreshToken (fst (getConfig (environ P) (fst s))))"
    and refreshed: "refreshAccessToken P (snd (getConfig (environ P) (fst s)), snd s @ [req]) = (True, s')"
    and converts: "String_js (token (fst (getConfig (environ P) (fst s')))) = Some t"
  shows "\<exists>retry.
           snd (snd (apiRequest P path options s))
             = snd s @ [req, refreshRequest P (fst (getConfig (environ P) (fst s))), retry]
         \<and> req_url retry = req_url req \<and> req_method retry = req_method req
         \<and> req_body retry = req_body req
         \<and> fst (apiRequest P path options s)
             = (case fetch P (snd s @ [req, refreshRequest P (fst (getConfig (environ P) (fst s)))]) retry of
                  NetworkError m \<Rightarrow>
                    Returned (ApiError 0 (JStr (''Network error after token refresh: '' @ m)) None)
                | Response r2 \<Rightarrow> parseResponse P (binary options) r2)"
proof -
  let ?cfg = "fst (getConfig (environ P) (fst s))"
  obtain retry where retry: "retryRequest (fst (getConfig (environ P) (fst s'))) req = Returned retry"
    using converts by (simp add: retryRequest_def)
  have sent: "snd s' = snd s @ [req, refreshRequest P ?cfg]"
    using refreshAccessToken_sent [of P "snd (getConfig (environ P) (fst s))" "snd s @ [req]"]
      present refreshed by simp
  have run: "apiRequest P path options s =
           (case fetch P (snd s') retry of
              NetworkError m \<Rightarrow>
                Returned (ApiError 0 (JStr (''Network error after token refresh: '' @ m)) None)
            | Response r2 \<Rightarrow> parseResponse P (binary options) r2,
            (snd (getConfig (environ P) (fst s')), snd s' @ [retry]))"
    using built first unauth auth present refreshed retry by (rule apiRequest_refreshed)
  from sent run retryRequest_keeps [OF retry] show ?thesis by simp
qed

theorem refresh_then_one_retry_witness:
  "snd (snd (apiRequest (demo_platform demo_env no_files expiring_net) ''/api/v1/invoices'' no_options (None, [])))
     = [\<lparr>req_url = ''https://x.test/api/v1/invoices'', req_method = GET,
          req_headers = [(''Authorization'', ''Bearer tok'')], req_body = None\<rparr>,
        \<lparr>req_url = ''https://x.test/api/auth/token/refresh'', req_method = POST,
          req_headers = [(''Content-Type'', ''application/json'')],
          req_body = Some (JsonText ''{refresh_token:r1}'')\<rparr>,
        \<lparr>req_url = ''https://x.test/api/v1/invoices'', req_method = GET,
          req_headers = [(''Authorization'', ''Bearer af_new'')], req_body = None\<rparr>]
   \<and> fst (apiRequest (demo_platform demo_env no_files expiring_net) ''/api/v1/invoices'' no_options (None, []))
     = Returned (ApiError 401 (JStr ''Still expired'') (Some (JObj [(''message'', JStr ''Still expired'')])))"
proof -
  let ?P = "demo_platform demo_env no_files expiring_net"
  let ?req = "\<lparr>req_url = ''https://x.test/api/v1/invoices'', req_method = GET,
          req_headers = [(''Authorization'', ''Bearer tok'')], req_body = None\<rparr>"
  let ?r1 = "json_response 401 (Some (JObj [(''message'', JStr ''Expired'')]))"
  let ?s' = "(Some \<lparr>baseUrl = ''https://x.test'', token = JStr ''af_new'', refreshToken = JStr ''r2'',
                 companyId = None, email = None, password = None\<rparr>,
              [?req, \<lparr>req_url = ''https://x.test/api/auth/token/refresh'', req_method = POST,
                 req_headers = [(''Content-Type'', ''application/json'')],
                 req_body = Some (JsonText ''{refresh_token:r1}'')\<rparr>])"
  have built: "buildRequest ?P (fst (getConfig (environ ?P) (fst (None, [])))) ''/api/v1/invoices'' no_options
      = Returned ?req"
    by (simp add: client_defs demo_defs)
  have first: "fetch ?P (snd (None, [])) ?req = Response ?r1"
    by (simp add: demo_defs expiring_net_def)
  have unauth: "status ?r1 = 401"
    by (simp add: demo_defs)
  have auth: "\<not> noAuth no_options"
    by (simp add: demo_defs)
  have present: "truthy (refreshToken (fst (getConfig (environ ?P) (fst (None, [])))))"
    by (simp add: client_defs demo_defs)
  have refreshed: "refreshAccessToken ?P (snd (getConfig (environ ?P) (fst (None, []))), snd (None, []) @ [?req])
      = (True, ?s')"
    by (simp add: client_defs demo_defs expiring_net_def)
  have converts: "String_js (token (fst (getConfig (environ ?P) (fst ?s')))) = Some ''af_new''"
    by (simp add: client_defs)
  from refresh_then_one_retry [OF built first unauth auth present refreshed converts]
  show ?thesis
    by (simp add: client_defs demo_defs expiring_net_def)
qed

text \<open>
  C10. The claim is that every call whose refresh after a 401 succeeds has a retried
  request, whose \<^verbatim>\<open>Authorization\<close> header is \<^verbatim>\<open>Bearer\<close> followed by the newly stored
  token. When the stored token does not convert to text there is no retried request
  and no such header: after a refresh that stores an object carrying a \<^verbatim>\<open>toString\<close>
  property, the requests of the call are the original one, under the old token, and
  the refresh, and the call throws.
\<close>

theorem object_token_no_bearer:
  "fst (refreshAccessToken (demo_platform demo_env no_files object_token_net)
       (snd (getConfig demo_env None),
        [\<lparr>req_url = ''https://x.test/api/v1/invoices'', req_method = GET,
           req_headers = [(''Authorization'', ''Bearer tok'')], req_body = None\<rparr>]))
   \<and> fst (apiRequest (demo_platform demo_env no_files object_token_net) ''/api/v1/invoices'' no_options (None, []))
     = Thrown TypeError
   \<and> fst (snd (apiRequest (demo_platform demo_env no_files object_token_net) ''/api/v1/invoices'' no_options (None, [])))
     = Some \<lparr>baseUrl = ''https://x.test'', token = JObj [(''toString'', JNum ''1'')],
               refreshToken = JStr ''r2'', companyId = None, email = None, password = None\<rparr>
   \<and> map (\<lambda>r. (req_url r, map_of (req_headers r) ''Authorization''))
         (snd (snd (apiRequest (demo_platform demo_env no_files object_token_net) ''/api/v1/invoices''
            no_options (None, []))))
     = [(''https://x.test/api/v1/invoices'', Some ''Bearer tok''),
        (''https://x.test/api/auth/token/refresh'', None)]"
  by (simp add: client_defs demo_defs object_token_net_def)

text \<open>
  C10, as amended. When the refresh after a 401 succeeds and the token it has just
  stored in the session (the \<^verbatim>\<open>token\<close> property of the refresh response) converts to
  text, the retried request, the last one the call sends, carries
  \<^verbatim>\<open>Authorization: Bearer\<close> followed by that text. A stored string \<open>t\<close> always converts,
  to itself, and the header is \<open>''Bearer '' @ t\<close> whatever \<open>t\<close> starts with: the API-key
  branch of the initial request is not taken on the retry.
\<close>

theorem retry_is_bearer:
  assumes built: "buildRequest P (fst (getConfig (environ P) (fst s))) path options = Returned req"
    and first: "fetch P (snd s) req = Response r1"
    and unauth: "status r1 = 401"
    and auth: "\<not> noAuth options"
    and present: "truthy (refreshToken (fst (getConfig (environ P) (fst s))))"
    and refreshed: "refreshAccessToken P (snd (getConfig (environ P) (fst s)), snd s @ [req]) = (True, s')"
    and converts: "String_js (token (fst (getConfig (environ P) (fst s')))) = Some t"
  shows "\<exists>stored retry res data.
           fetch P (snd s @ [req]) (refreshRequest P (fst (getConfig (environ P) (fst s)))) = Response res
         \<and> json_body res = Some data
         \<and> get_prop data ''token'' = Some (token stored)
         \<and> String_js (token stored) = Some t
         \<and> fst (snd (apiRequest P path options s)) = Some stored
         \<and> snd (snd (apiRequest P path options s))
             = snd s @ [req, refreshRequest P (fst (getConfig (environ P) (fst s))), retry]
         \<and> map_of (req_headers retry) ''Authorization'' = Some (''Bearer '' @ t)
         \<and> (\<forall>x. token stored = JStr x \<longrightarrow>
               map_of (req_headers retry) ''Authorization'' = Some (''Bearer '' @ x))"
proof -
  let ?cfg = "fst (getConfig (environ P) (fst s))"
  have "fst (refreshAccessToken P (snd (getConfig (environ P) (fst s)), snd s @ [req]))"
    using refreshed by simp
  from refreshAccessToken_succeeded [OF this] refreshed
  obtain res data tk r where res: "fetch P (snd s @ [req]) (refreshRequest P ?cfg) = Response res"
    and data: "json_body res = Some data" and tk: "get_prop data ''token'' = Some tk"
    and stored: "fst s' = Some (?cfg\<lparr>token := tk, refreshToken := r\<rparr>)"
    by auto
  let ?stored = "?cfg\<lparr>token := tk, refreshToken := r\<rparr>"
  have cfg': "fst (getConfig (environ P) (fst s')) = ?stored"
    and st': "snd (getConfig (environ P) (fst s')) = Some ?stored"
    using stored by (simp_all add: getConfig_def)
  have conv: "String_js tk = Some t"
    using converts cfg' by simp
  let ?retry = "req\<lparr>req_headers := AList.update ''Authorization'' (''Bearer '' @ t) (req_headers req)\<rparr>"
  have retry: "retryRequest (fst (getConfig (environ P) (fst s'))) req = Returned ?retry"
    using converts by (simp add: retryRequest_def)
  have sent: "snd s' = snd s @ [req, refreshRequest P ?cfg]"
    using refreshAccessToken_sent [of P "snd (getConfig (environ P) (fst s))" "snd s @ [req]"]
      present refreshed by simp
  have run: "apiRequest P path options s =
           (case fetch P (snd s') ?retry of
              NetworkError m \<Rightarrow>
                Returned (ApiError 0 (JStr (''Network error after token refresh: '' @ m)) None)
            | Response r2 \<Rightarrow> parseResponse P (binary options) r2,
            (snd (getConfig (environ P) (fst s')), snd s' @ [?retry]))"
    using built first unauth auth present refreshed retry by (rule apiRequest_refreshed)
  from run sent st' have "fst (snd (apiRequest P path options s)) = Some ?stored"
    and "snd (snd (apiRequest P path options s)) = snd s @ [req, refreshRequest P ?cfg, ?retry]"
    by simp_all
  with res data tk conv show ?thesis
    by (intro exI [of _ ?stored] exI [of _ ?retry] exI [of _ res] exI [of _ data])
      (auto simp add: update_conv')
qed

theorem retry_is_bearer_witness:
  "startsWith ''af_new'' ''af_''
   \<and> fst (snd (apiRequest (demo_platform demo_env no_files expiring_net) ''/api/v1/invoices'' no_options (None, [])))
       = Some \<lparr>baseUrl = ''https://x.test'', token = JStr ''af_new'', refreshToken = JStr ''r2'',
                 companyId = None, email = None, password = None\<rparr>
   \<and> map (\<lambda>r. map_of (req_headers r) ''Authorization'')
         (snd (snd (apiRequest (demo_platform demo_env no_files expiring_net) ''/api/v1/invoices''
            no_options (None, []))))
       = [Some ''Bearer tok'', None, Some ''Bearer af_new'']"
proof -
  let ?P = "demo_platform demo_env no_files expiring_net"
  let ?req = "\<lparr>req_url = ''https://x.test/api/v1/invoices'', req_method = GET,
          req_headers = [(''Authorization'', ''Bearer tok'')], req_body = None\<rparr>"
  let ?r1 = "json_response 401 (Some (JObj [(''message'', JStr ''Expired'')]))"
  let ?s' = "(Some \<lparr>baseUrl = ''https://x.test'', token = JStr ''af_new'', refreshToken = JStr ''r2'',
                 companyId = None, email = None, password = None\<rparr>,
              [?req, \<lparr>req_url = ''https://x.test/api/auth/token/refresh'', req_method = POST,
                 req_headers = [(''Content-Type'', ''application/json'')],
                 req_body = Some (JsonText ''{refresh_token:r1}'')\<rparr>])"
  have built: "buildRequest ?P (fst (getConfig (environ ?P) (fst (None, [])))) ''/api/v1/invoices'' no_options
      = Returned ?req"
    by (simp add: client_defs demo_defs)
  have first: "fetch ?P (snd (None, [])) ?req = Response ?r1"
    by (simp add: demo_defs expiring_net_def)
  have unauth: "status ?r1 = 401"
    by (simp add: demo_defs)
  have auth: "\<not> noAuth no_options"
    by (simp add: demo_defs)
  have present: "truthy (refreshToken (fst (getConfig (environ ?P) (fst (None, [])))))"
    by (simp add: client_defs demo_defs)
  have refreshed: "refreshAccessToken ?P (snd (getConfig (environ ?P) (fst (None, []))), snd (None, []) @ [?req])
      = (True, ?s')"
    by (simp add: client_defs demo_defs expiring_net_def)
  have converts: "String_js (token (fst (getConfig (environ ?P) (fst ?s')))) = Some ''af_new''"
    by (simp add: client_defs)
  from retry_is_bearer [OF built first unauth auth present refreshed converts]
  show ?thesis
    by (simp add: client_defs demo_defs expiring_net_def)
qed

text \<open>
  When the refresh fails, for whatever reason, the call goes on with the original 401
  response: what it gives is the parse of that response, and the process has sent the
  original request and the refresh request, nothing else. Nothing of the refresh attempt
  is in the result.
\<close>

lemma refresh_failure_falls_back:
  assumes built: "buildRequest P (fst (getConfig (environ P) (fst s))) path options = Returned req"
    and first: "fetch P (snd s) req = Response r1"
    and unauth: "status r1 = 401"
    and auth: "\<not> noAuth options"
    and present: "truthy (refreshToken (fst (getConfig (environ P) (fst s))))"
    and failed: "\<not> fst (refreshAccessToken P (snd (getConfig (environ P) (fst s)), snd s @ [req]))"
  shows "apiRequest P path options s
           = (parseResponse P (binary options) r1,
              (snd (getConfig (environ P) (fst s)),
               snd s @ [req, refreshRequest P (fst (getConfig (environ P) (fst s)))]))"
proof -
  let ?st = "snd (getConfig (environ P) (fst s))"
  obtain s' where s': "refreshAccessToken P (?st, snd s @ [req]) = (False, s')"
    using failed by (cases "refreshAccessToken P (?st, snd s @ [req])") simp
  have "snd s' = snd s @ [req, refreshRequest P (fst (getConfig (environ P) (fst s)))]"
    using refreshAccessToken_sent [of P ?st "snd s @ [req]"] present s' by simp
  moreover have "fst s' = ?st"
    using refreshAccessToken_failed [of P ?st "snd s @ [req]"] s' by simp
  ultimately have "s' = (?st, snd s @ [req, refreshRequest P (fst (getConfig (environ P) (fst s)))])"
    by (cases s') simp
  with apiRequest_not_refreshed [OF built first unauth auth present s'] show ?thesis by simp
qed

text \<open>
  The parse of a response that is not OK is a failure carrying its status, with one
  exception: a body that declares JSON and parses to \<^verbatim>\<open>null\<close>.
\<close>

lemma parseResponse_not_ok:
  assumes "\<not> ok res" and "status res \<noteq> 204"
    and "bin \<or> json_body res \<noteq> Some JNull \<and> json_body res \<noteq> Some JUndefined"
  shows "\<exists>e d. parseResponse P bin res = Returned (ApiError (status res) e d)"
proof (cases bin)
  case True
  with assms show ?thesis by (simp add: parseResponse_def)
next
  case False
  show ?thesis
  proof (cases "json_body res")
    case None
    with False assms show ?thesis by (simp add: parseResponse_def Let_def)
  next
    case (Some data)
    with False assms have "data \<noteq> JNull" "data \<noteq> JUndefined" by auto
    then obtain m e where "get_prop data ''message'' = Some m" "get_prop data ''error'' = Some e"
      by (cases data) auto
    with False Some assms show ?thesis by (simp add: parseResponse_def Let_def)
  qed
qed

text \<open>
  C2. The claim is that a 401 followed by a failed refresh gives a \<open>Failure\<close> parsed
  from the original 401 response. The fallback to the original response holds
  (\<open>refresh_failure_falls_back\<close>), and its parse is a failure for every body but one
  (\<open>parseResponse_not_ok\<close>): when the 401 declares JSON and its body is \<^verbatim>\<open>null\<close>,
  \<^verbatim>\<open>errBody.message\<close> reads a property of \<^verbatim>\<open>null\<close>, and the call throws a TypeError
  instead of returning. Here the server answers such a 401 and the refresh cannot connect.
\<close>

theorem null_body_401_throws:
  "apiRequest (demo_platform demo_env no_files null_401_net) ''/api/v1/invoices'' no_options (None, [])
     = (Thrown TypeError,
        (Some \<lparr>baseUrl = ''https://x.test'', token = JStr ''tok'', refreshToken = JStr ''r1'',
                 companyId = None, email = None, password = None\<rparr>,
         [\<lparr>req_url = ''https://x.test/api/v1/invoices'', req_method = GET,
            req_headers = [(''Authorization'', ''Bearer tok'')], req_body = None\<rparr>,
          \<lparr>req_url = ''https://x.test/api/auth/token/refresh'', req_method = POST,
            req_headers = [(''Content-Type'', ''application/json'')],
            req_body = Some (JsonText ''{refresh_token:r1}'')\<rparr>]))"
  by (simp add: client_defs demo_defs null_401_net_def)

section \<open>Exceptions\<close>








section \<open>Parsing\<close>

text \<open>
  C5. The claim is that a response with status 204 gives \<open>Success{204, null}\<close> whatever
  the binary flag. The parser tests the flag first: with \<open>binary\<close> set, a 204 is an OK
  response, its (empty) body is read and encoded, and the data is the binary payload.
\<close>

theorem binary_no_content_counterexample:
  "fetch (demo_platform demo_env no_files no_content_net) []
       \<lparr>req_url = ''https://x.test/api/v1/export'', req_method = GET,
         req_headers = [(''Authorization'', ''Bearer tok'')], req_body = None\<rparr> = Response no_content
   \<and> status no_content = 204
   \<and> fst (apiRequest (demo_platform demo_env no_files no_content_net) ''/api/v1/export''
            (no_options\<lparr>binary := True\<rparr>) (None, []))
       = Returned (ApiResponse 204 (JObj [(''base64'', JStr []), (''contentType'', JNull)]))
   \<and> snd (snd (apiRequest (demo_platform demo_env no_files no_content_net) ''/api/v1/export''
            (no_options\<lparr>binary := True\<rparr>) (None, [])))
       = [\<lparr>req_url = ''https://x.test/api/v1/export'', req_method = GET,
            req_headers = [(''Authorization'', ''Bearer tok'')], req_body = None\<rparr>]"
  by (simp add: client_defs demo_defs no_content_def no_content_net_def)

text \<open>
  C5, as amended. A call whose response (the retried one, when there was a retry) has
  status 204 returns \<open>Success{204, null}\<close> when \<open>binary\<close> is unset, whatever the content
  type and the body; when \<open>binary\<close> is set and the body can be read, it returns
  \<open>Success\<close> with status 204 and, as data, the base64 text of the body and the content
  type (\<^verbatim>\<open>null\<close> when the response has none).
\<close>

theorem no_content_is_null:
  assumes "buildRequest P (fst (getConfig (environ P) (fst s))) path options = Returned req"
    and "exchange P (fst (getConfig (environ P) (fst s))) options req
           (snd (getConfig (environ P) (fst s)), snd s) = (Returned (Inr res), s')"
    and "status res = 204"
  shows "(\<not> binary options \<longrightarrow>
            apiRequest P path options s = (Returned (ApiResponse 204 JNull), s'))
       \<and> (\<forall>buffer. binary options \<and> arrayBuffer_body res = Some buffer \<longrightarrow>
            apiRequest P path options s
              = (Returned (ApiResponse 204
                   (JObj [(''base64'', JStr (base64 P buffer)),
                          (''contentType'',
                           case content_type res of None \<Rightarrow> JNull | Some c \<Rightarrow> JStr c)])), s'))"
  using assms by (simp add: apiRequest_def Let_def parseResponse_def ok_def)

theorem no_content_is_null_witness:
  "apiRequest (demo_platform demo_env no_files no_content_net) ''/api/v1/invoices/7''
       (no_options\<lparr>opt_method := Some DELETE\<rparr>) (None, [])
     = (Returned (ApiResponse 204 JNull),
        (Some \<lparr>baseUrl = ''https://x.test'', token = JStr ''tok'', refreshToken = JStr ''r1'',
                 companyId = None, email = None, password = None\<rparr>,
         [\<lparr>req_url = ''https://x.test/api/v1/invoices/7'', req_method = DELETE,
            req_headers = [(''Authorization'', ''Bearer tok'')], req_body = None\<rparr>]))
   \<and> apiRequest (demo_platform demo_env no_files no_content_net) ''/api/v1/invoices/7''
       (no_options\<lparr>opt_method := Some DELETE, binary := True\<rparr>) (None, [])
     = (Returned (ApiResponse 204 (JObj [(''base64'', JStr []), (''contentType'', JNull)])),
        (Some \<lparr>baseUrl = ''https://x.test'', token = JStr ''tok'', refreshToken = JStr ''r1'',
                 companyId = None, email = None, password = None\<rparr>,
         [\<lparr>req_url = ''https://x.test/api/v1/invoices/7'', req_method = DELETE,
            req_headers = [(''Authorization'', ''Bearer tok'')], req_body = None\<rparr>]))"
proof -
  let ?P = "demo_platform demo_env no_files no_content_net"
  let ?o = "no_options\<lparr>opt_method := Some DELETE\<rparr>"
  let ?b = "no_options\<lparr>opt_method := Some DELETE, binary := True\<rparr>"
  let ?req = "\<lparr>req_url = ''https://x.test/api/v1/invoices/7'', req_method = DELETE,
            req_headers = [(''Authorization'', ''Bearer tok'')], req_body = None\<rparr>"
  let ?s' = "(Some \<lparr>baseUrl = ''https://x.test'', token = JStr ''tok'', refreshToken = JStr ''r1'',
                 companyId = None, email = None, password = None\<rparr>, [?req])"
  have built: "buildRequest ?P (fst (getConfig (environ ?P) (fst (None, [])))) ''/api/v1/invoices/7'' ?o = Returned ?req"
    by (simp add: client_defs demo_defs)
  have sent: "exchange ?P (fst (getConfig (environ ?P) (fst (None, [])))) ?o ?req
           (snd (getConfig (environ ?P) (fst (None, []))), snd (None, [])) = (Returned (Inr no_content), ?s')"
    by (simp add: client_defs demo_defs no_content_def no_content_net_def)
  have built_b: "buildRequest ?P (fst (getConfig (environ ?P) (fst (None, [])))) ''/api/v1/invoices/7'' ?b = Returned ?req"
    by (simp add: client_defs demo_defs)
  have sent_b: "exchange ?P (fst (getConfig (environ ?P) (fst (None, [])))) ?b ?req
           (snd (getConfig (environ ?P) (fst (None, []))), snd (None, [])) = (Returned (Inr no_content), ?s')"
    by (simp add: client_defs demo_defs no_content_def no_content_net_def)
  have code: "status no_content = 204" by (simp add: no_content_def)
  have flag: "\<not> binary ?o" and flag_b: "binary ?b \<and> arrayBuffer_body no_content = Some []"
    by (simp_all add: demo_defs no_content_def)
  from no_content_is_null [OF built sent code] no_content_is_null [OF built_b sent_b code] flag flag_b
  show ?thesis
    by (simp add: demo_defs no_content_def)
qed

text \<open>
  C6. The claim is that a response that declares a JSON content type and whose body
  does not parse gives the failure \<^verbatim>\<open>Failed to parse JSON response\<close>. The parser takes
  a response for JSON when its content type contains the text \<^verbatim>\<open>application/json\<close>, as
  written. A content type that names JSON in other letters (\<^verbatim>\<open>Application/JSON\<close>) or a
  JSON type of its own (\<^verbatim>\<open>application/problem+json\<close>) is read as text: the body that
  does not parse comes back as the data of a success.
\<close>

theorem json_by_another_name_counterexample:
  "apiRequest (demo_platform demo_env no_files (mistyped_json_net ''Application/JSON''))
       ''/api/v1/invoices'' no_options (None, [])
     = (Returned (ApiResponse 200 (JStr ''{oops'')),
        (Some \<lparr>baseUrl = ''https://x.test'', token = JStr ''tok'', refreshToken = JStr ''r1'',
                 companyId = None, email = None, password = None\<rparr>,
         [\<lparr>req_url = ''https://x.test/api/v1/invoices'', req_method = GET,
            req_headers = [(''Authorization'', ''Bearer tok'')], req_body = None\<rparr>]))
   \<and> apiRequest (demo_platform demo_env no_files (mistyped_json_net ''application/problem+json''))
       ''/api/v1/invoices'' no_options (None, [])
     = (Returned (ApiResponse 200 (JStr ''{oops'')),
        (Some \<lparr>baseUrl = ''https://x.test'', token = JStr ''tok'', refreshToken = JStr ''r1'',
                 companyId = None, email = None, password = None\<rparr>,
         [\<lparr>req_url = ''https://x.test/api/v1/invoices'', req_method = GET,
            req_headers = [(''Authorization'', ''Bearer tok'')], req_body = None\<rparr>]))
   \<and> fetch (demo_platform demo_env no_files (mistyped_json_net ''Application/JSON'')) []
       \<lparr>req_url = ''https://x.test/api/v1/invoices'', req_method = GET,
         req_headers = [(''Authorization'', ''Bearer tok'')], req_body = None\<rparr>
     = Response \<lparr>status = 200, content_type = Some ''Application/JSON'', text_body = Some ''{oops'',
                  json_body = None, arrayBuffer_body = None\<rparr>"
  by (simp add: client_defs demo_defs mistyped_json_net_def)

text \<open>
  C6, as amended. With \<open>binary\<close> unset and a status other than 204, a response whose
  content type contains the text \<^verbatim>\<open>application/json\<close>, in these letters, and whose
  body does not parse gives the failure \<^verbatim>\<open>Failed to parse JSON response\<close> with the
  status of the response. The status is not tested before: a 2xx gives the same failure.
\<close>

theorem json_parse_failure:
  assumes "buildRequest P (fst (getConfig (environ P) (fst s))) path options = Returned req"
    and "exchange P (fst (getConfig (environ P) (fst s))) options req
           (snd (getConfig (environ P) (fst s)), snd s) = (Returned (Inr res), s')"
    and "\<not> binary options"
    and "status res \<noteq> 204"
    and "content_type res = Some ct"
    and "str_includes ct ''application/json''"
    and "json_body res = None"
  shows "apiRequest P path options s
           = (Returned (ApiError (status res) (JStr ''Failed to parse JSON response'') None), s')"
  using assms by (simp add: apiRequest_def Let_def parseResponse_def)

theorem json_parse_failure_witness:
  "ok (json_response 200 None)
   \<and> apiRequest (demo_platform demo_env no_files broken_json_net) ''/api/v1/invoices'' no_options (None, [])
     = (Returned (ApiError 200 (JStr ''Failed to parse JSON response'') None),
        (Some \<lparr>baseUrl = ''https://x.test'', token = JStr ''tok'', refreshToken = JStr ''r1'',
                 companyId = None, email = None, password = None\<rparr>,
         [\<lparr>req_url = ''https://x.test/api/v1/invoices'', req_method = GET,
            req_headers = [(''Authorization'', ''Bearer tok'')], req_body = None\<rparr>]))"
proof -
  let ?P = "demo_platform demo_env no_files broken_json_net"
  let ?req = "\<lparr>req_url = ''https://x.test/api/v1/invoices'', req_method = GET,
            req_headers = [(''Authorization'', ''Bearer tok'')], req_body = None\<rparr>"
  let ?s' = "(Some \<lparr>baseUrl = ''https://x.test'', token = JStr ''tok'', refreshToken = JStr ''r1'',
                 companyId = None, email = None, password = None\<rparr>, [?req])"
  have built: "buildRequest ?P (fst (getConfig (environ ?P) (fst (None, [])))) ''/api/v1/invoices'' no_options = Returned ?req"
    by (simp add: client_defs demo_defs)
  have sent: "exchange ?P (fst (getConfig (environ ?P) (fst (None, [])))) no_options ?req
           (snd (getConfig (environ ?P) (fst (None, []))), snd (None, [])) = (Returned (Inr (json_response 200 None)), ?s')"
    by (simp add: client_defs demo_defs broken_json_net_def)
  have flag: "\<not> binary no_options" by (simp add: demo_defs)
  have code: "status (json_response 200 None) \<noteq> 204" by (simp add: demo_defs)
  have ct: "content_type (json_response 200 None) = Some ''application/json; charset=utf-8''"
    by (simp add: demo_defs)
  have json: "str_includes ''application/json; charset=utf-8'' ''application/json''" by simp
  have unparsed: "json_body (json_response 200 None) = None" by (simp add: demo_defs)
  from json_parse_failure [OF built sent flag code ct json unparsed] show ?thesis
    by (simp add: client_defs demo_defs)
qed

section \<open>The query string\<close>

lemma searchParams_set_fresh:
  "k \<notin> fst ` set ps \<Longrightarrow> searchParams_set k v ps = ps @ [(k, v)]"
  by (induction ps) auto

lemma searchParams_set_same:
  "filter (\<lambda>p. fst p = k) (searchParams_set k v ps) = [(k, v)]"
  by (induction ps) (auto simp add: filter_empty_conv)

lemma searchParams_set_other:
  "k' \<noteq> k \<Longrightarrow> filter (\<lambda>p. fst p = k') (searchParams_set k v ps) = filter (\<lambda>p. fst p = k') ps"
proof (induction ps)
  case Nil
  then show ?case by simp
next
  case (Cons p ps)
  have "filter (\<lambda>p. fst p = k') (filter (\<lambda>q. fst q \<noteq> k) ps) = filter (\<lambda>p. fst p = k') ps"
    using Cons.prems by (induction ps) auto
  with Cons show ?case by auto
qed

lemma add_query_absent:
  "k \<notin> fst ` set q \<Longrightarrow> filter (\<lambda>p. fst p = k) (add_query q ps) = filter (\<lambda>p. fst p = k) ps"
proof (induction q arbitrary: ps)
  case Nil
  then show ?case by simp
next
  case (Cons e es)
  then have "fst e \<noteq> k" and "k \<notin> fst ` set es" by auto
  with Cons.IH show ?case by (simp add: searchParams_set_other)
qed

lemma add_query_entry:
  assumes "distinct (map fst q)" and "e \<in> set q"
  shows "filter (\<lambda>p. fst p = fst e) (add_query q ps) =
           (if sendable (snd e) then [(fst e, String_q (snd e))] else filter (\<lambda>p. fst p = fst e) ps)"
  using assms
proof (induction q arbitrary: ps)
  case Nil
  then show ?case by simp
next
  case (Cons x xs)
  show ?case
  proof (cases "e = x")
    case True
    with Cons.prems have "fst e \<notin> fst ` set xs" by auto
    with True show ?thesis
      by (simp add: add_query_absent searchParams_set_same)
  next
    case False
    with Cons.prems have e: "e \<in> set xs" and d: "distinct (map fst xs)" and ne: "fst e \<noteq> fst x"
      by (auto simp add: rev_image_eqI)
    from Cons.IH [OF d e] ne show ?thesis
      by (simp add: searchParams_set_other)
  qed
qed

lemma add_query_fresh:
  assumes "distinct (map fst q)" and "fst ` set q \<inter> fst ` set ps = {}"
  shows "add_query q ps = ps @ map (\<lambda>e. (fst e, String_q (snd e))) (filter (\<lambda>e. sendable (snd e)) q)"
  using assms
proof (induction q arbitrary: ps)
  case Nil
  then show ?case by simp
next
  case (Cons e es)
  from Cons.prems have d: "distinct (map fst es)" and fresh: "fst e \<notin> fst ` set ps"
    and nk: "fst e \<notin> fst ` set es" and rest: "fst ` set es \<inter> fst ` set ps = {}"
    by auto
  show ?case
  proof (cases "sendable (snd e)")
    case True
    have "fst ` set es \<inter> fst ` set (ps @ [(fst e, String_q (snd e))]) = {}"
      using rest nk by auto
    from Cons.IH [OF d this] True fresh show ?thesis
      by (simp add: searchParams_set_fresh)
  next
    case False
    with Cons.IH [OF d rest] show ?thesis by simp
  qed
qed

text \<open>
  C7. The claim is that the built URL's query string excludes every key of the query
  map whose value is \<^verbatim>\<open>undefined\<close>, \<^verbatim>\<open>null\<close> or the empty string. The loop only ever
  sets pairs: for such a key it does nothing, and a pair that the path itself carries
  under that key stays in the URL.
\<close>

theorem path_query_counterexample:
  "buildUrl (demo_platform demo_env no_files no_content_net\<lparr>new_URL := query_URL\<rparr>)
      (fst (getConfig demo_env None)) ''/api/v1/invoices?limit=5''
      (no_options\<lparr>query := Some [(''page'', QNum ''1''), (''limit'', QUndefined)]\<rparr>)
     = Returned \<lparr>location = ''https://x.test/api/v1/invoices'',
                 searchParams = [(''limit'', ''5''), (''page'', ''1'')]\<rparr>
   \<and> map req_url (snd (snd (apiRequest (demo_platform demo_env no_files no_content_net\<lparr>new_URL := query_URL\<rparr>)
        ''/api/v1/invoices?limit=5''
        (no_options\<lparr>query := Some [(''page'', QNum ''1''), (''limit'', QUndefined)]\<rparr>) (None, []))))
     = [''https://x.test/api/v1/invoices?limit=5&page=1'']"
  by (simp add: client_defs demo_defs query_URL_def parse_pair_def no_content_def no_content_net_def)

text \<open>
  C7, as amended. For a query map (an object: its keys are distinct), the loop sets one
  pair for every key whose value is not \<^verbatim>\<open>undefined\<close>, \<^verbatim>\<open>null\<close> or the empty string:
  the built URL has exactly one pair under that key, with the value coerced to a
  string. For a key with one of the three values it sets nothing: the pairs under that
  key are those the path's own query string carries. When the path carries no query
  string, as every path of the repository, the query string is exactly the pairs of
  the kept entries, in order, and no key with an omitted value occurs in it.
\<close>

theorem query_string_of_query_map:
  assumes url: "new_URL P path (baseUrl cfg) = Some u0"
    and q: "query options = Some q"
    and keys: "distinct (map fst q)"
  shows "\<exists>u. buildUrl P cfg path options = Returned u
     \<and> (\<forall>e\<in>set q. sendable (snd e) \<longrightarrow>
           filter (\<lambda>p. fst p = fst e) (searchParams u) = [(fst e, String_q (snd e))])
     \<and> (\<forall>e\<in>set q. \<not> sendable (snd e) \<longrightarrow>
           filter (\<lambda>p. fst p = fst e) (searchParams u) = filter (\<lambda>p. fst p = fst e) (searchParams u0))
     \<and> (searchParams u0 = [] \<longrightarrow>
           searchParams u = map (\<lambda>e. (fst e, String_q (snd e))) (filter (\<lambda>e. sendable (snd e)) q)
         \<and> (\<forall>e\<in>set q. \<not> sendable (snd e) \<longrightarrow> fst e \<notin> fst ` set (searchParams u)))"
proof -
  let ?u = "u0\<lparr>searchParams := add_query q (searchParams u0)\<rparr>"
  have b: "buildUrl P cfg path options = Returned ?u"
    using url q by (simp add: buildUrl_def)
  have once: "\<forall>e\<in>set q. sendable (snd e) \<longrightarrow>
           filter (\<lambda>p. fst p = fst e) (searchParams ?u) = [(fst e, String_q (snd e))]"
    using add_query_entry [OF keys] by simp
  have kept: "\<forall>e\<in>set q. \<not> sendable (snd e) \<longrightarrow>
           filter (\<lambda>p. fst p = fst e) (searchParams ?u) = filter (\<lambda>p. fst p = fst e) (searchParams u0)"
    using add_query_entry [OF keys] by simp
  have plain: "searchParams u0 = [] \<longrightarrow>
           searchParams ?u = map (\<lambda>e. (fst e, String_q (snd e))) (filter (\<lambda>e. sendable (snd e)) q)
         \<and> (\<forall>e\<in>set q. \<not> sendable (snd e) \<longrightarrow> fst e \<notin> fst ` set (searchParams ?u))"
  proof
    assume empty: "searchParams u0 = []"
    have all: "searchParams ?u = map (\<lambda>e. (fst e, String_q (snd e))) (filter (\<lambda>e. sendable (snd e)) q)"
      using add_query_fresh [OF keys, of "[]"] empty by simp
    have "\<forall>e\<in>set q. \<not> sendable (snd e) \<longrightarrow> fst e \<notin> fst ` set (searchParams ?u)"
    proof (intro ballI impI)
      fix e assume e: "e \<in> set q" and n: "\<not> sendable (snd e)"
      from kept e n empty have "filter (\<lambda>p. fst p = fst e) (searchParams ?u) = []" by simp
      then show "fst e \<notin> fst ` set (searchParams ?u)"
        by (auto simp add: filter_empty_conv)
    qed
    with all show "searchParams ?u = map (\<lambda>e. (fst e, String_q (snd e))) (filter (\<lambda>e. sendable (snd e)) q)
         \<and> (\<forall>e\<in>set q. \<not> sendable (snd e) \<longrightarrow> fst e \<notin> fst ` set (searchParams ?u))"
      by simp
  qed
  from b once kept plain show ?thesis by blast
qed

theorem query_string_of_query_map_witness:
  "buildUrl (demo_platform demo_env no_files no_content_net) (fst (getConfig demo_env None)) ''/api/v1/invoices''
      (no_options\<lparr>query := Some [(''page'', QNum ''1''), (''limit'', QUndefined), (''search'', QStr []),
                                   (''paid'', QBool False), (''from'', QNull)]\<rparr>)
     = Returned \<lparr>location = ''https://x.test/api/v1/invoices'',
                 searchParams = [(''page'', ''1''), (''paid'', ''false'')]\<rparr>
   \<and> map req_url (snd (snd (apiRequest (demo_platform demo_env no_files no_content_net) ''/api/v1/invoices''
      (no_options\<lparr>query := Some [(''page'', QNum ''1''), (''limit'', QUndefined), (''search'', QStr []),
                                   (''paid'', QBool False), (''from'', QNull)]\<rparr>) (None, []))))
       = [''https://x.test/api/v1/invoices?page=1&paid=false'']"
proof -
  let ?P = "demo_platform demo_env no_files no_content_net"
  let ?q = "[(''page'', QNum ''1''), (''limit'', QUndefined), (''search'', QStr []),
             (''paid'', QBool False), (''from'', QNull)]"
  let ?o = "no_options\<lparr>query := Some ?q\<rparr>"
  let ?u0 = "\<lparr>location = ''https://x.test/api/v1/invoices'', searchParams = []\<rparr>"
  have url: "new_URL ?P ''/api/v1/invoices'' (baseUrl (fst (getConfig demo_env None))) = Some ?u0"
    by (simp add: client_defs demo_defs)
  have q: "query ?o = Some ?q" by (simp add: demo_defs)
  have keys: "distinct (map fst ?q)" by simp
  from query_string_of_query_map [OF url q keys] show ?thesis
    by (simp add: client_defs demo_defs no_content_def no_content_net_def)
qed

section \<open>Headers\<close>

lemma companyHeader_other:
  "k \<noteq> ''X-Company'' \<Longrightarrow> map_of (companyHeader cfg options h) k = map_of h k"
  by (simp add: companyHeader_def update_conv' split: option.splits)

lemma buildBody_headers_other:
  "buildBody P options h = Returned hb \<Longrightarrow> k \<noteq> ''Content-Type'' \<Longrightarrow> map_of (fst hb) k = map_of h k"
  by (auto simp add: buildBody_def update_conv' split: if_splits option.splits)

lemma authHeader_other:
  "authHeader cfg options h = Returned h' \<Longrightarrow> k \<noteq> ''Authorization'' \<Longrightarrow> map_of h' k = map_of h k"
  by (auto simp add: authHeader_def update_conv' split: if_splits jsval.splits)

lemma authHeader_string_token:
  assumes "\<not> noAuth options" and "token cfg = JStr t" and "t \<noteq> []"
  shows "authHeader cfg options h =
           Returned (AList.update ''Authorization'' (if startsWith t ''af_'' then t else ''Bearer '' @ t) h)"
  using assms by (simp add: authHeader_def)

lemma buildRequest_parts:
  assumes "buildRequest P cfg path options = Returned req"
  shows "\<exists>u h1 hb.
           buildUrl P cfg path options = Returned u
         \<and> authHeader cfg options (case headers options of None \<Rightarrow> [] | Some h \<Rightarrow> h) = Returned h1
         \<and> buildBody P options (companyHeader cfg options h1) = Returned hb
         \<and> req = \<lparr>req_url = url_toString P u,
                   req_method = (case opt_method options of None \<Rightarrow> GET | Some m \<Rightarrow> m),
                   req_headers = fst hb, req_body = snd hb\<rparr>"
  using assms by (auto simp add: buildRequest_def split: outcome.splits)

lemma refreshAccessToken_sent_cases:
  "snd (snd (refreshAccessToken P (st, sent))) = sent
   \<or> snd (snd (refreshAccessToken P (st, sent))) = sent @ [refreshRequest P (fst (getConfig (environ P) st))]"
  by (simp add: refreshAccessToken_def Let_def split: fetch_result.splits option.splits)

text \<open>
  The requests of a call: the built request first, then at most the refresh request
  and a retry of the built request.
\<close>

lemma exchange_requests:
  "\<exists>rest. snd (snd (exchange P cfg options req (st, sent))) = sent @ req # rest
     \<and> (\<forall>r\<in>set rest. r = refreshRequest P (fst (getConfig (environ P) st))
                       \<or> (\<exists>c. retryRequest c req = Returned r))"
proof (cases "fetch P sent req")
  case (NetworkError m)
  then show ?thesis by (simp add: exchange_def)
next
  case (Response res)
  show ?thesis
  proof (cases "status res = 401 \<and> \<not> noAuth options \<and> truthy (refreshToken cfg)")
    case False
    with Response show ?thesis by (auto simp add: exchange_def)
  next
    case True
    obtain refreshed s' where r: "refreshAccessToken P (st, sent @ [req]) = (refreshed, s')"
      by (cases "refreshAccessToken P (st, sent @ [req])") simp
    let ?rr = "refreshRequest P (fst (getConfig (environ P) st))"
    from refreshAccessToken_sent_cases [of P st "sent @ [req]"] r
    have sent: "snd s' = sent @ req # [] \<or> snd s' = sent @ req # [?rr]" by simp
    show ?thesis
    proof (cases refreshed)
      case False
      with Response True r sent show ?thesis
        by (auto simp add: exchange_def)
    next
      case yes: True
      let ?c = "fst (getConfig (environ P) (fst s'))"
      show ?thesis
      proof (cases "retryRequest ?c req")
        case (Thrown e)
        with Response True r yes sent show ?thesis
          by (auto simp add: exchange_def Let_def)
      next
        case (Returned retry)
        have "snd (snd (exchange P cfg options req (st, sent))) = snd s' @ [retry]"
          using Response True r yes Returned
          by (simp add: exchange_def Let_def split: fetch_result.splits)
        with sent Returned show ?thesis
          by auto
      qed
    qed
  qed
qed

lemma apiRequest_requests:
  assumes built: "buildRequest P (fst (getConfig (environ P) (fst s))) path options = Returned req"
  shows "\<exists>rest. snd (snd (apiRequest P path options s)) = snd s @ req # rest
     \<and> (\<forall>r\<in>set rest. r = refreshRequest P (fst (getConfig (environ P) (fst s)))
                       \<or> (\<exists>c. retryRequest c req = Returned r))"
proof -
  let ?cfg = "fst (getConfig (environ P) (fst s))"
  let ?st = "snd (getConfig (environ P) (fst s))"
  have "snd (snd (apiRequest P path options s)) = snd (snd (exchange P ?cfg options req (?st, snd s)))"
    using built by (simp add: apiRequest_def Let_def split: prod.splits sum.splits outcome.splits)
  with exchange_requests [of P ?cfg options req ?st "snd s"] show ?thesis
    by simp
qed

lemma apiRequest_first_request:
  assumes built: "buildRequest P (fst (getConfig (environ P) (fst s))) path options = Returned req"
  shows "\<exists>rest. snd (snd (apiRequest P path options s)) = snd s @ req # rest"
  using apiRequest_requests [OF built] by blast

text \<open>
  C3. With authentication not bypassed and a token in the session (a non-empty
  string), the first request the call sends carries an \<^verbatim>\<open>Authorization\<close> header that
  is the token itself when it starts with \<^verbatim>\<open>af_\<close>, and \<^verbatim>\<open>Bearer\<close>, a space and the
  token otherwise.
\<close>

theorem initial_authorization_header:
  assumes auth: "\<not> noAuth options"
    and tok: "token (fst (getConfig (environ P) (fst s))) = JStr t"
    and present: "t \<noteq> []"
    and built: "buildRequest P (fst (getConfig (environ P) (fst s))) path options = Returned req"
  shows "(\<exists>rest. snd (snd (apiRequest P path options s)) = snd s @ req # rest)
       \<and> map_of (req_headers req) ''Authorization''
           = Some (if startsWith t ''af_'' then t else ''Bearer '' @ t)"
proof -
  let ?cfg = "fst (getConfig (environ P) (fst s))"
  let ?h0 = "case headers options of None \<Rightarrow> [] | Some h \<Rightarrow> h"
  let ?a = "if startsWith t ''af_'' then t else ''Bearer '' @ t"
  from buildRequest_parts [OF built] obtain u h1 hb where
    h1: "authHeader ?cfg options ?h0 = Returned h1"
    and hb: "buildBody P options (companyHeader ?cfg options h1) = Returned hb"
    and req: "req_headers req = fst hb"
    by auto
  from h1 authHeader_string_token [OF auth tok present, of ?h0]
  have "h1 = AList.update ''Authorization'' ?a ?h0" by simp
  then have "map_of h1 ''Authorization'' = Some ?a" by (simp add: update_conv')
  then have "map_of (companyHeader ?cfg options h1) ''Authorization'' = Some ?a"
    by (simp add: companyHeader_other)
  with buildBody_headers_other [OF hb, of "''Authorization''"] req
  have "map_of (req_headers req) ''Authorization'' = Some ?a" by simp
  with apiRequest_first_request [OF built] show ?thesis by simp
qed

theorem initial_authorization_header_witness:
  "startsWith ''af_xyz'' ''af_''
   \<and> snd (snd (apiRequest (demo_platform key_env no_files no_content_net) ''/api/v1/clients''
         (no_options\<lparr>opt_method := Some POST, body := Some [(''a'', JNum ''1'')]\<rparr>) (None, [])))
       = [\<lparr>req_url = ''https://api.storno.ro/api/v1/clients'', req_method = POST,
            req_headers = [(''Authorization'', ''af_xyz''), (''X-Company'', ''c-1''),
                           (''Content-Type'', ''application/json'')],
            req_body = Some (JsonText ''{a:1}'')\<rparr>]
   \<and> \<not> startsWith ''tok'' ''af_''
   \<and> snd (snd (apiRequest (demo_platform demo_env no_files no_content_net) ''/api/v1/clients''
         no_options (None, [])))
       = [\<lparr>req_url = ''https://x.test/api/v1/clients'', req_method = GET,
            req_headers = [(''Authorization'', ''Bearer tok'')], req_body = None\<rparr>]"
proof -
  let ?P = "demo_platform key_env no_files no_content_net"
  let ?o = "no_options\<lparr>opt_method := Some POST, body := Some [(''a'', JNum ''1'')]\<rparr>"
  let ?req = "\<lparr>req_url = ''https://api.storno.ro/api/v1/clients'', req_method = POST,
            req_headers = [(''Authorization'', ''af_xyz''), (''X-Company'', ''c-1''),
                           (''Content-Type'', ''application/json'')],
            req_body = Some (JsonText ''{a:1}'')\<rparr>"
  let ?Q = "demo_platform demo_env no_files no_content_net"
  let ?req2 = "\<lparr>req_url = ''https://x.test/api/v1/clients'', req_method = GET,
            req_headers = [(''Authorization'', ''Bearer tok'')], req_body = None\<rparr>"
  have auth: "\<not> noAuth ?o" by (simp add: demo_defs key_env_def no_content_def no_content_net_def)
  have tok: "token (fst (getConfig (environ ?P) (fst (None, [])))) = JStr ''af_xyz''"
    by (simp add: client_defs demo_defs key_env_def no_content_def no_content_net_def)
  have present: "''af_xyz'' \<noteq> []" by simp
  have built: "buildRequest ?P (fst (getConfig (environ ?P) (fst (None, [])))) ''/api/v1/clients'' ?o = Returned ?req"
    by (simp add: client_defs demo_defs key_env_def no_content_def no_content_net_def)
  have auth2: "\<not> noAuth no_options" by (simp add: demo_defs key_env_def no_content_def no_content_net_def)
  have tok2: "token (fst (getConfig (environ ?Q) (fst (None, [])))) = JStr ''tok''"
    by (simp add: client_defs demo_defs key_env_def no_content_def no_content_net_def)
  have present2: "''tok'' \<noteq> []" by simp
  have built2: "buildRequest ?Q (fst (getConfig (environ ?Q) (fst (None, [])))) ''/api/v1/clients'' no_options = Returned ?req2"
    by (simp add: client_defs demo_defs key_env_def no_content_def no_content_net_def)
  from initial_authorization_header [OF auth tok present built]
    initial_authorization_header [OF auth2 tok2 present2 built2]
  show ?thesis
    by (simp add: client_defs demo_defs key_env_def no_content_def no_content_net_def)
qed

section \<open>The body\<close>

lemma buildRequest_ignores_body:
  assumes "str_truthy (filePath options)"
  shows "buildRequest P cfg path (options\<lparr>body := b\<rparr>) = buildRequest P cfg path options"
proof -
  have u: "buildUrl P cfg path (options\<lparr>body := b\<rparr>) = buildUrl P cfg path options"
    by (simp add: buildUrl_def split: option.splits)
  have a: "\<And>h. authHeader cfg (options\<lparr>body := b\<rparr>) h = authHeader cfg options h"
    by (simp add: authHeader_def split: jsval.splits)
  have c: "\<And>h. companyHeader cfg (options\<lparr>body := b\<rparr>) h = companyHeader cfg options h"
    by (simp add: companyHeader_def split: option.splits)
  have f: "\<And>h. buildBody P (options\<lparr>body := b\<rparr>) h = buildBody P options h"
    using assms by (simp add: buildBody_def formEntries_def split: option.splits)
  show ?thesis
    by (simp add: buildRequest_def u a c f cong: outcome.case_cong)
qed

lemma apiRequest_ignores_body:
  assumes "str_truthy (filePath options)"
  shows "apiRequest P path (options\<lparr>body := b\<rparr>) s = apiRequest P path options s"
proof -
  have x: "\<And>cfg req st. exchange P cfg (options\<lparr>body := b\<rparr>) req st = exchange P cfg options req st"
    by (simp add: exchange_def cong: fetch_result.case_cong)
  show ?thesis
    by (simp add: apiRequest_def Let_def buildRequest_ignores_body [OF assms] x
        split: outcome.splits prod.splits sum.splits)
qed

text \<open>
  C8. The first request a call sends is the request it has built, and every later
  request of the call is either the refresh request or a retry with the URL, the
  method, the body and the content type of the first. The body is one of three,
  decided by the options alone. With a file path, it is a multipart form: the file
  under the configured field name (\<^verbatim>\<open>file\<close> when none is given) with its base name,
  then the extra form fields in order; the \<^verbatim>\<open>Content-Type\<close> entry is what the caller
  supplied, and the \<open>body\<close> option plays no part in the call, whatever it is. Without a
  file path, a \<open>body\<close> option is sent as JSON text with
  \<^verbatim>\<open>Content-Type: application/json\<close>; with neither, there is no body.
\<close>

theorem one_body_per_request:
  assumes built: "buildRequest P (fst (getConfig (environ P) (fst s))) path options = Returned req"
  shows "(\<exists>rest. snd (snd (apiRequest P path options s)) = snd s @ req # rest
            \<and> (\<forall>r\<in>set rest.
                  r = refreshRequest P (fst (getConfig (environ P) (fst s)))
                \<or> (req_url r = req_url req \<and> req_method r = req_method req
                   \<and> req_body r = req_body req
                   \<and> map_of (req_headers r) ''Content-Type''
                        = map_of (req_headers req) ''Content-Type'')))
       \<and> (if str_truthy (filePath options) then
            (\<exists>fp fileBuffer.
               filePath options = Some fp \<and> readFileSync P fp = Some fileBuffer
             \<and> req_body req =
                 Some (FormData
                   ((case fileFieldName options of None \<Rightarrow> ''file'' | Some f \<Rightarrow> f,
                     FileBlob fileBuffer (basename P fp))
                    # (case formFields options of
                         None \<Rightarrow> []
                       | Some fs \<Rightarrow> map (\<lambda>kv. (fst kv, Field (snd kv))) fs))))
          \<and> map_of (req_headers req) ''Content-Type''
               = map_of (case headers options of None \<Rightarrow> [] | Some h \<Rightarrow> h) ''Content-Type''
          \<and> (\<forall>b. apiRequest P path (options\<lparr>body := b\<rparr>) s = apiRequest P path options s)
          else
            (case body options of
               Some b \<Rightarrow>
                 req_body req = Some (JsonText (JSON_stringify P (JObj b)))
               \<and> map_of (req_headers req) ''Content-Type'' = Some ''application/json''
             | None \<Rightarrow>
                 req_body req = None
               \<and> map_of (req_headers req) ''Content-Type''
                    = map_of (case headers options of None \<Rightarrow> [] | Some h \<Rightarrow> h) ''Content-Type''))"
proof -
  let ?cfg = "fst (getConfig (environ P) (fst s))"
  let ?h0 = "case headers options of None \<Rightarrow> [] | Some h \<Rightarrow> h"
  from apiRequest_requests [OF built] obtain rest where
    sent: "snd (snd (apiRequest P path options s)) = snd s @ req # rest"
    and later: "\<forall>r\<in>set rest. r = refreshRequest P ?cfg \<or> (\<exists>c. retryRequest c req = Returned r)"
    by blast
  have "\<forall>r\<in>set rest.
          r = refreshRequest P ?cfg
        \<or> (req_url r = req_url req \<and> req_method r = req_method req \<and> req_body r = req_body req
           \<and> map_of (req_headers r) ''Content-Type'' = map_of (req_headers req) ''Content-Type'')"
    using later retryRequest_keeps by blast
  with sent have requests: "\<exists>rest. snd (snd (apiRequest P path options s)) = snd s @ req # rest
            \<and> (\<forall>r\<in>set rest.
                  r = refreshRequest P ?cfg
                \<or> (req_url r = req_url req \<and> req_method r = req_method req
                   \<and> req_body r = req_body req
                   \<and> map_of (req_headers r) ''Content-Type''
                        = map_of (req_headers req) ''Content-Type''))"
    by blast
  from buildRequest_parts [OF built] obtain u h1 hb where
    h1: "authHeader ?cfg options ?h0 = Returned h1"
    and hb: "buildBody P options (companyHeader ?cfg options h1) = Returned hb"
    and req: "req_headers req = fst hb" "req_body req = snd hb"
    by auto
  have before: "map_of (companyHeader ?cfg options h1) ''Content-Type'' = map_of ?h0 ''Content-Type''"
    using authHeader_other [OF h1, of "''Content-Type''"] by (simp add: companyHeader_other)
  have bodies: "if str_truthy (filePath options) then
            (\<exists>fp fileBuffer.
               filePath options = Some fp \<and> readFileSync P fp = Some fileBuffer
             \<and> req_body req =
                 Some (FormData
                   ((case fileFieldName options of None \<Rightarrow> ''file'' | Some f \<Rightarrow> f,
                     FileBlob fileBuffer (basename P fp))
                    # (case formFields options of
                         None \<Rightarrow> []
                       | Some fs \<Rightarrow> map (\<lambda>kv. (fst kv, Field (snd kv))) fs))))
          \<and> map_of (req_headers req) ''Content-Type'' = map_of ?h0 ''Content-Type''
          \<and> (\<forall>b. apiRequest P path (options\<lparr>body := b\<rparr>) s = apiRequest P path options s)
          else
            (case body options of
               Some b \<Rightarrow>
                 req_body req = Some (JsonText (JSON_stringify P (JObj b)))
               \<and> map_of (req_headers req) ''Content-Type'' = Some ''application/json''
             | None \<Rightarrow>
                 req_body req = None
               \<and> map_of (req_headers req) ''Content-Type'' = map_of ?h0 ''Content-Type'')"
  proof (cases "str_truthy (filePath options)")
    case True
    then obtain fp where fp: "filePath options = Some fp" "fp \<noteq> []"
      by (auto simp add: str_truthy_def split: option.splits)
    with hb True obtain fileBuffer where readable: "readFileSync P fp = Some fileBuffer"
      by (cases "readFileSync P fp") (auto simp add: buildBody_def)
    with hb True fp have "hb = (companyHeader ?cfg options h1,
        Some (FormData (formEntries options fileBuffer (basename P fp))))"
      by (simp add: buildBody_def)
    with req before have "req_body req = Some (FormData (formEntries options fileBuffer (basename P fp)))"
      and "map_of (req_headers req) ''Content-Type'' = map_of ?h0 ''Content-Type''"
      by simp_all
    moreover have "\<forall>b. apiRequest P path (options\<lparr>body := b\<rparr>) s = apiRequest P path options s"
      using apiRequest_ignores_body [OF True] by simp
    ultimately show ?thesis
      using True fp readable by (simp add: formEntries_def)
  next
    case False
    show ?thesis
    proof (cases "body options")
      case None
      with hb False have "hb = (companyHeader ?cfg options h1, None)"
        by (simp add: buildBody_def)
      with req before None False show ?thesis
        by simp
    next
      case (Some b)
      with hb False have "hb = (AList.update ''Content-Type'' ''application/json'' (companyHeader ?cfg options h1),
          Some (JsonText (JSON_stringify P (JObj b))))"
        by (simp add: buildBody_def)
      with req Some False show ?thesis
        by (simp add: update_conv')
    qed
  qed
  from requests bodies show ?thesis by (rule conjI)
qed

theorem one_body_per_request_witness:
  "apiRequest (demo_platform demo_env one_file no_content_net) ''/api/v1/borderou/import''
      (no_options\<lparr>opt_method := Some POST, body := Some [(''ignored'', JBool True)],
                   filePath := Some ''/tmp/statement.csv'',
                   formFields := Some [(''provider'', ''bank'')]\<rparr>) (None, [])
     = (Returned (ApiResponse 204 JNull),
        (Some \<lparr>baseUrl = ''https://x.test'', token = JStr ''tok'', refreshToken = JStr ''r1'',
                 companyId = None, email = None, password = None\<rparr>,
         [\<lparr>req_url = ''https://x.test/api/v1/borderou/import'', req_method = POST,
            req_headers = [(''Authorization'', ''Bearer tok'')],
            req_body = Some (FormData [(''file'', FileBlob [0x61, 0x2C, 0x62] ''statement.csv''),
                                       (''provider'', Field ''bank'')])\<rparr>]))
   \<and> snd (snd (apiRequest (demo_platform demo_env one_file no_content_net) ''/api/v1/borderou/import''
      (no_options\<lparr>opt_method := Some POST, body := Some [(''sent'', JBool True)]\<rparr>) (None, [])))
     = [\<lparr>req_url = ''https://x.test/api/v1/borderou/import'', req_method = POST,
          req_headers = [(''Authorization'', ''Bearer tok''), (''Content-Type'', ''application/json'')],
          req_body = Some (JsonText ''{sent:true}'')\<rparr>]"
proof -
  let ?P = "demo_platform demo_env one_file no_content_net"
  let ?o = "no_options\<lparr>opt_method := Some POST, body := Some [(''ignored'', JBool True)],
                   filePath := Some ''/tmp/statement.csv'',
                   formFields := Some [(''provider'', ''bank'')]\<rparr>"
  let ?j = "no_options\<lparr>opt_method := Some POST, body := Some [(''sent'', JBool True)]\<rparr>"
  let ?req = "\<lparr>req_url = ''https://x.test/api/v1/borderou/import'', req_method = POST,
                 req_headers = [(''Authorization'', ''Bearer tok'')],
                 req_body = Some (FormData [(''file'', FileBlob [0x61, 0x2C, 0x62] ''statement.csv''),
                                            (''provider'', Field ''bank'')])\<rparr>"
  let ?jreq = "\<lparr>req_url = ''https://x.test/api/v1/borderou/import'', req_method = POST,
          req_headers = [(''Authorization'', ''Bearer tok''), (''Content-Type'', ''application/json'')],
          req_body = Some (JsonText ''{sent:true}'')\<rparr>"
  have built: "buildRequest ?P (fst (getConfig (environ ?P) (fst (None, []))))
      ''/api/v1/borderou/import'' ?o = Returned ?req"
    by (simp add: client_defs demo_defs one_file_def)
  have built_j: "buildRequest ?P (fst (getConfig (environ ?P) (fst (None, []))))
      ''/api/v1/borderou/import'' ?j = Returned ?jreq"
    by (simp add: client_defs demo_defs one_file_def)
  from one_body_per_request [OF built] one_body_per_request [OF built_j] show ?thesis
    by (simp add: client_defs demo_defs one_file_def no_content_def no_content_net_def)
qed

end
